theory Spec2Isabelle
  imports Complex_Main
begin

section \<open>JavaScript numbers\<close>

text \<open>
  A JavaScript number is modelled as an exact real or one of the three exceptional values
  of IEEE 754. Arithmetic on finite values is exact (no rounding, no overflow, no signed
  zero); the exceptional values follow the IEEE rules, so a division by zero, a \<open>NaN\<close>
  test and an \<open>isFinite\<close> test behave as they do in the program.
\<close>

datatype jsnum = Num real | PInf | NInf | NaN

fun jneg :: "jsnum \<Rightarrow> jsnum" where
  "jneg (Num a) = Num (- a)"
| "jneg PInf = NInf"
| "jneg NInf = PInf"
| "jneg NaN = NaN"

fun jadd :: "jsnum \<Rightarrow> jsnum \<Rightarrow> jsnum" where
  "jadd (Num a) (Num b) = Num (a + b)"
| "jadd NaN _ = NaN"
| "jadd _ NaN = NaN"
| "jadd PInf NInf = NaN"
| "jadd NInf PInf = NaN"
| "jadd PInf _ = PInf"
| "jadd _ PInf = PInf"
| "jadd NInf _ = NInf"
| "jadd _ NInf = NInf"

definition jsub :: "jsnum \<Rightarrow> jsnum \<Rightarrow> jsnum" where
  "jsub a b = jadd a (jneg b)"

fun jmul :: "jsnum \<Rightarrow> jsnum \<Rightarrow> jsnum" where
  "jmul (Num a) (Num b) = Num (a * b)"
| "jmul NaN _ = NaN"
| "jmul _ NaN = NaN"
| "jmul PInf (Num b) = (if b = 0 then NaN else if 0 < b then PInf else NInf)"
| "jmul NInf (Num b) = (if b = 0 then NaN else if 0 < b then NInf else PInf)"
| "jmul (Num a) PInf = (if a = 0 then NaN else if 0 < a then PInf else NInf)"
| "jmul (Num a) NInf = (if a = 0 then NaN else if 0 < a then NInf else PInf)"
| "jmul PInf PInf = PInf"
| "jmul PInf NInf = NInf"
| "jmul NInf PInf = NInf"
| "jmul NInf NInf = PInf"

fun jdiv :: "jsnum \<Rightarrow> jsnum \<Rightarrow> jsnum" where
  "jdiv (Num a) (Num b) =
     (if b = 0 then (if a = 0 then NaN else if 0 < a then PInf else NInf)
      else Num (a / b))"
| "jdiv NaN _ = NaN"
| "jdiv _ NaN = NaN"
| "jdiv (Num a) PInf = Num 0"
| "jdiv (Num a) NInf = Num 0"
| "jdiv PInf (Num b) = (if 0 \<le> b then PInf else NInf)"
| "jdiv NInf (Num b) = (if 0 \<le> b then NInf else PInf)"
| "jdiv PInf PInf = NaN"
| "jdiv PInf NInf = NaN"
| "jdiv NInf PInf = NaN"
| "jdiv NInf NInf = NaN"

text \<open>\<open>Math.sqrt\<close>.\<close>

fun jsqrt :: "jsnum \<Rightarrow> jsnum" where
  "jsqrt (Num a) = (if a < 0 then NaN else Num (sqrt a))"
| "jsqrt PInf = PInf"
| "jsqrt NInf = NaN"
| "jsqrt NaN = NaN"

text \<open>The comparisons \<open><\<close>, \<open>===\<close>, \<open><=\<close>, \<open>>\<close>, \<open>>=\<close>: false whenever an operand is \<open>NaN\<close>.\<close>

fun jlt :: "jsnum \<Rightarrow> jsnum \<Rightarrow> bool" where
  "jlt (Num a) (Num b) = (a < b)"
| "jlt NaN _ = False"
| "jlt _ NaN = False"
| "jlt NInf NInf = False"
| "jlt NInf _ = True"
| "jlt _ NInf = False"
| "jlt PInf _ = False"
| "jlt _ PInf = True"

fun jeq :: "jsnum \<Rightarrow> jsnum \<Rightarrow> bool" where
  "jeq (Num a) (Num b) = (a = b)"
| "jeq PInf PInf = True"
| "jeq NInf NInf = True"
| "jeq _ _ = False"

definition jle :: "jsnum \<Rightarrow> jsnum \<Rightarrow> bool" where
  "jle a b = (jlt a b \<or> jeq a b)"

definition jgt :: "jsnum \<Rightarrow> jsnum \<Rightarrow> bool" where
  "jgt a b = jlt b a"

definition jge :: "jsnum \<Rightarrow> jsnum \<Rightarrow> bool" where
  "jge a b = jle b a"

text \<open>\<open>Math.min\<close> and \<open>Math.max\<close> of two arguments: \<open>NaN\<close> when either is.\<close>

definition jmin :: "jsnum \<Rightarrow> jsnum \<Rightarrow> jsnum" where
  "jmin a b = (if a = NaN \<or> b = NaN then NaN else if jlt b a then b else a)"

definition jmax :: "jsnum \<Rightarrow> jsnum \<Rightarrow> jsnum" where
  "jmax a b = (if a = NaN \<or> b = NaN then NaN else if jlt a b then b else a)"

fun isNaN :: "jsnum \<Rightarrow> bool" where
  "isNaN NaN = True"
| "isNaN _ = False"

fun isFinite :: "jsnum \<Rightarrow> bool" where
  "isFinite (Num a) = True"
| "isFinite _ = False"

text \<open>Truthiness of a number (\<open>0\<close> and \<open>NaN\<close> are falsy) and the idiom \<open>a || d\<close>.\<close>

definition truthy :: "jsnum \<Rightarrow> bool" where
  "truthy a = (a \<noteq> Num 0 \<and> a \<noteq> NaN)"

definition jor :: "jsnum \<Rightarrow> jsnum \<Rightarrow> jsnum" where
  "jor a d = (if truthy a then a else d)"

section \<open>Playback clock (RaceControlsProvider)\<close>

text \<open>
  The provider holds three pieces of React state and one ref. \<open>getCurrentTime\<close> reads the
  ref, which is the elapsed time every frame samples.
\<close>

record RaceControls =
  isPlaying :: bool
  playbackSpeed :: jsnum
  currentTimeState :: jsnum
  currentTimeRef :: jsnum

definition initialControls :: RaceControls where
  "initialControls =
     \<lparr>isPlaying = False, playbackSpeed = Num 1, currentTimeState = Num 0,
      currentTimeRef = Num 0\<rparr>"

definition advanceTime :: "jsnum \<Rightarrow> RaceControls \<Rightarrow> RaceControls" where
  "advanceTime delta s =
     (if \<not> isPlaying s then s
      else s\<lparr>currentTimeRef := jadd (currentTimeRef s) (jmul delta (playbackSpeed s))\<rparr>)"

definition setTime :: "jsnum \<Rightarrow> RaceControls \<Rightarrow> RaceControls" where
  "setTime time s = s\<lparr>currentTimeRef := time, currentTimeState := time\<rparr>"

definition togglePlay :: "RaceControls \<Rightarrow> RaceControls" where
  "togglePlay s = s\<lparr>isPlaying := \<not> isPlaying s\<rparr>"

definition reset :: "RaceControls \<Rightarrow> RaceControls" where
  "reset s = s\<lparr>isPlaying := False, currentTimeRef := Num 0, currentTimeState := Num 0\<rparr>"

definition getCurrentTime :: "RaceControls \<Rightarrow> jsnum" where
  "getCurrentTime s = currentTimeRef s"

text \<open>\<open>setPlaybackSpeed\<close> is the state setter returned by \<open>useState\<close>: it stores its argument.\<close>

definition setPlaybackSpeed :: "jsnum \<Rightarrow> RaceControls \<Rightarrow> RaceControls" where
  "setPlaybackSpeed speed s = s\<lparr>playbackSpeed := speed\<rparr>"

text \<open>The two speed buttons of ARControls.\<close>

definition speedUp :: "RaceControls \<Rightarrow> RaceControls" where
  "speedUp s = setPlaybackSpeed (jmin (Num 5) (jadd (playbackSpeed s) (Num 0.5))) s"

definition speedDown :: "RaceControls \<Rightarrow> RaceControls" where
  "speedDown s = setPlaybackSpeed (jmax (Num 0.5) (jsub (playbackSpeed s) (Num 0.5))) s"

text \<open>RaceTimer: the per-frame driver caps the frame delta at 0.1 s before advancing.\<close>

definition raceTimerFrame :: "jsnum \<Rightarrow> RaceControls \<Rightarrow> RaceControls" where
  "raceTimerFrame delta s =
     (if isPlaying s then advanceTime (jmin delta (Num 0.1)) s else s)"

section \<open>Vector3 and MathUtils (three.js)\<close>

text \<open>
  The few operations of the three.js library that the components call, as the library
  defines them: \<open>length\<close> is the Euclidean norm, \<open>normalize\<close> divides by
  \<open>length() || 1\<close>, \<open>divideScalar(s)\<close> multiplies by \<open>1 / s\<close>, and
  \<open>MathUtils.lerp(x, y, t)\<close> is \<open>(1 - t) * x + t * y\<close>.
\<close>

datatype Vector3 = Vector3 (vx: jsnum) (vy: jsnum) (vz: jsnum)

definition subVectors :: "Vector3 \<Rightarrow> Vector3 \<Rightarrow> Vector3" where
  "subVectors a b = Vector3 (jsub (vx a) (vx b)) (jsub (vy a) (vy b)) (jsub (vz a) (vz b))"

definition addVectors :: "Vector3 \<Rightarrow> Vector3 \<Rightarrow> Vector3" where
  "addVectors a b = Vector3 (jadd (vx a) (vx b)) (jadd (vy a) (vy b)) (jadd (vz a) (vz b))"

definition length_v3 :: "Vector3 \<Rightarrow> jsnum" where
  "length_v3 v =
     jsqrt (jadd (jadd (jmul (vx v) (vx v)) (jmul (vy v) (vy v))) (jmul (vz v) (vz v)))"

definition multiplyScalar :: "Vector3 \<Rightarrow> jsnum \<Rightarrow> Vector3" where
  "multiplyScalar v s = Vector3 (jmul (vx v) s) (jmul (vy v) s) (jmul (vz v) s)"

definition divideScalar :: "Vector3 \<Rightarrow> jsnum \<Rightarrow> Vector3" where
  "divideScalar v s = multiplyScalar v (jdiv (Num 1) s)"

definition normalize_v3 :: "Vector3 \<Rightarrow> Vector3" where
  "normalize_v3 v = divideScalar v (jor (length_v3 v) (Num 1))"

definition addScaledVector :: "Vector3 \<Rightarrow> Vector3 \<Rightarrow> jsnum \<Rightarrow> Vector3" where
  "addScaledVector a v s =
     Vector3 (jadd (vx a) (jmul (vx v) s)) (jadd (vy a) (jmul (vy v) s))
       (jadd (vz a) (jmul (vz v) s))"

definition distanceTo :: "Vector3 \<Rightarrow> Vector3 \<Rightarrow> jsnum" where
  "distanceTo a b =
     (let dx = jsub (vx a) (vx b); dy = jsub (vy a) (vy b); dz = jsub (vz a) (vz b)
      in jsqrt (jadd (jadd (jmul dx dx) (jmul dy dy)) (jmul dz dz)))"

definition lerp :: "jsnum \<Rightarrow> jsnum \<Rightarrow> jsnum \<Rightarrow> jsnum" where
  "lerp x y t = jadd (jmul (jsub (Num 1) t) x) (jmul t y)"

section \<open>Telemetry sampling (Cars)\<close>

text \<open>
  Reading a JavaScript array at an index that is not one of its own yields
  \<open>undefined\<close>, here \<open>None\<close>. Reading a property of \<open>undefined\<close> throws a TypeError.
\<close>

datatype error = TypeError

definition arrayAt :: "'a list \<Rightarrow> int \<Rightarrow> 'a option" where
  "arrayAt xs i = (if 0 \<le> i \<and> i < int (length xs) then Some (xs ! nat i) else None)"

text \<open>\<open>Array.prototype.findIndex\<close>: the first index whose element satisfies the test, else -1.\<close>

fun findIndex :: "('a \<Rightarrow> bool) \<Rightarrow> 'a list \<Rightarrow> int" where
  "findIndex P [] = - 1"
| "findIndex P (a # as) =
     (if P a then 0 else (let r = findIndex P as in if r = - 1 then - 1 else r + 1))"

text \<open>A position sample is the three-element array \<open>[x, y, z]\<close> of the telemetry format.\<close>

datatype Triple = Triple (at0: jsnum) (at1: jsnum) (at2: jsnum)

datatype brake_val = BrakeBool bool | BrakeNum jsnum

fun brakeTruthy :: "brake_val \<Rightarrow> bool" where
  "brakeTruthy (BrakeBool b) = b"
| "brakeTruthy (BrakeNum n) = truthy n"

record CarTelemetry =
  driver :: string
  positions_normalized :: "Triple list"
  times_arr :: "jsnum list"
  throttle :: "jsnum list"
  brake :: "brake_val list"
  speed :: "jsnum list"

text \<open>The rendered sphere of a car: its position and the colour of its material, if it has one.\<close>

record Mesh =
  position :: Vector3
  material :: "string option"

definition position_set :: "jsnum \<Rightarrow> jsnum \<Rightarrow> jsnum \<Rightarrow> Mesh \<Rightarrow> Mesh" where
  "position_set a b c carRef = carRef\<lparr>position := Vector3 a b c\<rparr>"

definition color_set :: "string \<Rightarrow> Mesh \<Rightarrow> Mesh" where
  "color_set color carRef =
     (case material carRef of None \<Rightarrow> carRef | Some _ \<Rightarrow> carRef\<lparr>material := Some color\<rparr>)"

text \<open>The interpolation fraction \<open>Math.max(0, Math.min(1, (currentTime - prevTime) / (nextTime - prevTime)))\<close>.\<close>

definition fraction :: "jsnum \<Rightarrow> jsnum \<Rightarrow> jsnum \<Rightarrow> jsnum" where
  "fraction currentTime prevTime nextTime =
     jmax (Num 0) (jmin (Num 1) (jdiv (jsub currentTime prevTime) (jsub nextTime prevTime)))"

text \<open>The colour chosen from \<open>throttle[timeIndex] || 0\<close> and \<open>brake[timeIndex] || false\<close>.\<close>

definition carColor :: "CarTelemetry \<Rightarrow> int \<Rightarrow> string" where
  "carColor carData timeIndex =
     (let throttle_v = (case arrayAt (throttle carData) timeIndex of
                          None \<Rightarrow> Num 0 | Some v \<Rightarrow> jor v (Num 0));
          brake_v = (case arrayAt (brake carData) timeIndex of
                       None \<Rightarrow> False | Some b \<Rightarrow> brakeTruthy b)
      in if brake_v then ''#CA1551''
         else if jgt throttle_v (Num 50) then ''#03CEA4''
         else ''#FFFFFF'')"

text \<open>
  The interpolation between the samples \<open>timeIndex - 1\<close> and \<open>timeIndex\<close>, with its two
  validation returns.
\<close>

definition interpolate :: "int \<Rightarrow> jsnum \<Rightarrow> CarTelemetry \<Rightarrow> Mesh \<Rightarrow> Mesh" where
  "interpolate timeIndex currentTime carData carRef =
     (case (arrayAt (times_arr carData) (timeIndex - 1), arrayAt (times_arr carData) timeIndex) of
        (Some prevTime, Some nextTime) \<Rightarrow>
          (let t = fraction currentTime prevTime nextTime in
           case (arrayAt (positions_normalized carData) (timeIndex - 1),
                 arrayAt (positions_normalized carData) timeIndex) of
             (Some prevPos, Some nextPos) \<Rightarrow>
               (let newX = lerp (at0 prevPos) (at0 nextPos) t;
                    newZ = lerp (at2 prevPos) (at2 nextPos) t
                in color_set (carColor carData timeIndex)
                     (position_set newX (Num 0.01) newZ carRef))
           | _ \<Rightarrow> carRef)
      | _ \<Rightarrow> carRef)"

text \<open>
  The body of the per-car callback of \<open>useFrame\<close>, for a car whose mesh exists. The
  result is the updated mesh, or the error the callback throws.
\<close>

definition sampleCar :: "bool \<Rightarrow> jsnum \<Rightarrow> CarTelemetry \<Rightarrow> Mesh \<Rightarrow> error + Mesh" where
  "sampleCar playing currentTime carData carRef =
     (if \<not> playing \<and> jeq currentTime (Num 0) then
        (let initialPos = (case arrayAt (positions_normalized carData) 0 of
                             None \<Rightarrow> Triple (Num 0) (Num 0) (Num 0) | Some p \<Rightarrow> p)
         in Inr (position_set (at0 initialPos) (Num 0.01) (at2 initialPos) carRef))
      else if \<not> playing then Inr carRef
      else
        (let timeIndex = findIndex (\<lambda>t. jge t currentTime) (times_arr carData) in
         if timeIndex = - 1 then
           (case arrayAt (positions_normalized carData) (int (length (times_arr carData)) - 1) of
              None \<Rightarrow> Inl TypeError
            | Some lastPos \<Rightarrow> Inr (position_set (at0 lastPos) (Num 0.01) (at2 lastPos) carRef))
         else if timeIndex = 0 then
           (if (case arrayAt (times_arr carData) 0 of
                  None \<Rightarrow> False | Some t0 \<Rightarrow> jle currentTime t0) then
              (case arrayAt (positions_normalized carData) 0 of
                 None \<Rightarrow> Inl TypeError
               | Some firstPos \<Rightarrow>
                   Inr (position_set (at0 firstPos) (Num 0.01) (at2 firstPos) carRef))
            else Inr (interpolate 1 currentTime carData carRef))
         else Inr (interpolate timeIndex currentTime carData carRef)))"

text \<open>
  \<open>telemetry.forEach\<close>: the cars in order, skipping a car that has no mesh; an error
  thrown for one car ends the pass.
\<close>

fun carsForEach ::
  "bool \<Rightarrow> jsnum \<Rightarrow> CarTelemetry list \<Rightarrow> (string \<rightharpoonup> Mesh) \<Rightarrow> error + (string \<rightharpoonup> Mesh)" where
  "carsForEach playing currentTime [] carRefs = Inr carRefs"
| "carsForEach playing currentTime (carData # rest) carRefs =
     (case carRefs (driver carData) of
        None \<Rightarrow> carsForEach playing currentTime rest carRefs
      | Some carRef \<Rightarrow>
          (case sampleCar playing currentTime carData carRef of
             Inl e \<Rightarrow> Inl e
           | Inr carRef' \<Rightarrow>
               carsForEach playing currentTime rest (carRefs(driver carData \<mapsto> carRef'))))"

section \<open>Track geometry (Track)\<close>

text \<open>A point of the path is kept when it has at least three components and finite x and z.\<close>

definition validPoint :: "jsnum list \<Rightarrow> bool" where
  "validPoint point =
     (3 \<le> length point \<and> \<not> isNaN (point ! 0) \<and> \<not> isNaN (point ! 2) \<and>
      isFinite (point ! 0) \<and> isFinite (point ! 2))"

definition toPoints :: "jsnum list list \<Rightarrow> Vector3 list" where
  "toPoints trackPath =
     map (\<lambda>point. Vector3 (point ! 0) (Num 0) (point ! 2)) (filter validPoint trackPath)"

definition trackWidth :: jsnum where
  "trackWidth = Num 0.08"

definition offsetPair :: "Vector3 \<Rightarrow> Vector3 \<Rightarrow> Vector3 \<times> Vector3" where
  "offsetPair curr_p normal =
     (addScaledVector curr_p normal (jdiv (jneg trackWidth) (Num 2)),
      addScaledVector curr_p normal (jdiv trackWidth (Num 2)))"

text \<open>
  One iteration of the boundary loop, for index \<open>i\<close>: the pair of arrays before the
  iteration, and after it.
\<close>

definition boundaryStep ::
  "Vector3 list \<Rightarrow> nat \<Rightarrow> Vector3 list \<times> Vector3 list \<Rightarrow> Vector3 list \<times> Vector3 list" where
  "boundaryStep points i acc =
     (case acc of (innerPoints, outerPoints) \<Rightarrow>
        let curr_p = points ! i;
            prev_p = points ! (if 0 < i then i - 1 else length points - 1);
            next_p = points ! (if i < length points - 1 then i + 1 else 0);
            dir1 = subVectors curr_p prev_p;
            dir2 = subVectors next_p curr_p;
            dir1Len = length_v3 dir1;
            dir2Len = length_v3 dir2
        in
        if jlt dir1Len (Num 0.0001) \<or> jlt dir2Len (Num 0.0001) then
          (if 0 < length innerPoints then
             (let prevNormal =
                    normalize_v3 (subVectors (last outerPoints) (last innerPoints));
                  (innerPoint, outerPoint) = offsetPair curr_p prevNormal
              in (innerPoints @ [innerPoint], outerPoints @ [outerPoint]))
           else
             (let defaultNormal = Vector3 (Num 1) (Num 0) (Num 0);
                  (innerPoint, outerPoint) = offsetPair curr_p defaultNormal
              in (innerPoints @ [innerPoint], outerPoints @ [outerPoint])))
        else
          (let dir1n = normalize_v3 dir1;
               dir2n = normalize_v3 dir2;
               avgDir = addVectors dir1n dir2n;
               avgDirLen = length_v3 avgDir
           in
           if jlt avgDirLen (Num 0.0001) then
             (let normal0 = Vector3 (jneg (vz dir1n)) (Num 0) (vx dir1n);
                  normal = (if jlt (length_v3 normal0) (Num 0.0001)
                            then Vector3 (Num 1) (Num 0) (Num 0)
                            else normalize_v3 normal0);
                  (innerPoint, outerPoint) = offsetPair curr_p normal
              in (innerPoints @ [innerPoint], outerPoints @ [outerPoint]))
           else
             (let avgDirN = normalize_v3 avgDir;
                  normal0 = Vector3 (jneg (vz avgDirN)) (Num 0) (vx avgDirN);
                  normalLen = length_v3 normal0;
                  normal = (if jlt normalLen (Num 0.0001)
                            then Vector3 (Num 1) (Num 0) (Num 0)
                            else normalize_v3 normal0);
                  (innerPoint, outerPoint) = offsetPair curr_p normal
              in
              if isNaN (vx innerPoint) \<or> isNaN (vy innerPoint) \<or> isNaN (vz innerPoint) \<or>
                 isNaN (vx outerPoint) \<or> isNaN (vy outerPoint) \<or> isNaN (vz outerPoint)
              then (innerPoints @ [curr_p], outerPoints @ [curr_p])
              else (innerPoints @ [innerPoint], outerPoints @ [outerPoint]))))"

definition boundaryLoop :: "Vector3 list \<Rightarrow> Vector3 list \<times> Vector3 list" where
  "boundaryLoop points = fold (boundaryStep points) [0..<length points] ([], [])"

text \<open>The first memo of the component: centre, inner and outer points.\<close>

record Boundaries =
  centerPoints :: "Vector3 list"
  innerPoints :: "Vector3 list"
  outerPoints :: "Vector3 list"

definition trackBoundaries :: "jsnum list list \<Rightarrow> Boundaries" where
  "trackBoundaries trackPath =
     (if length trackPath < 2
      then \<lparr>centerPoints = [], innerPoints = [], outerPoints = []\<rparr>
      else
        (let points = toPoints trackPath in
         if length points < 2
         then \<lparr>centerPoints = [], innerPoints = [], outerPoints = []\<rparr>
         else
           (case boundaryLoop points of
              (inner, outer) \<Rightarrow>
                \<lparr>centerPoints = points, innerPoints = inner, outerPoints = outer\<rparr>)))"

definition finitePoint :: "Vector3 \<Rightarrow> bool" where
  "finitePoint p =
     (\<not> isNaN (vx p) \<and> \<not> isNaN (vy p) \<and> \<not> isNaN (vz p) \<and>
      isFinite (vx p) \<and> isFinite (vy p) \<and> isFinite (vz p))"

record Geometry =
  vertices :: "jsnum list"
  indices :: "nat list"

text \<open>
  The vertex loop \<open>[Inner0, Outer0, Inner1, Outer1, ...]\<close>: it reads
  \<open>validOuterPoints[i]\<close> for every index \<open>i\<close> of the inner points.
\<close>

fun pushVertices ::
  "Vector3 list \<Rightarrow> nat \<Rightarrow> Vector3 list \<Rightarrow> jsnum list \<Rightarrow> error + jsnum list" where
  "pushVertices [] i validOuterPoints verts = Inr verts"
| "pushVertices (inner # rest) i validOuterPoints verts =
     (case arrayAt validOuterPoints (int i) of
        None \<Rightarrow> Inl TypeError
      | Some outer \<Rightarrow>
          pushVertices rest (i + 1) validOuterPoints
            (verts @ [vx inner, vy inner, vz inner] @ [vx outer, vy outer, vz outer]))"

definition quadIndices :: "nat \<Rightarrow> nat list" where
  "quadIndices n =
     concat (map (\<lambda>i. (let base = i * 2
                        in [base, base + 1, base + 2] @ [base + 1, base + 3, base + 2]))
               [0..<n - 1])"

definition closingIndices :: "Vector3 list \<Rightarrow> nat list" where
  "closingIndices validInnerPoints =
     (let first = validInnerPoints ! 0;
          lastp = validInnerPoints ! (length validInnerPoints - 1)
      in if jlt (distanceTo first lastp) (Num 0.1)
         then (let base = (length validInnerPoints - 1) * 2
               in [base, base + 1, 0] @ [base + 1, 1, 0])
         else [])"

definition asphaltGeometry :: "Vector3 list \<Rightarrow> Vector3 list \<Rightarrow> error + Geometry option" where
  "asphaltGeometry validInnerPoints validOuterPoints =
     (if length validInnerPoints < 2 \<or> length validOuterPoints < 2 then Inr None
      else
        (case pushVertices validInnerPoints 0 validOuterPoints [] of
           Inl e \<Rightarrow> Inl e
         | Inr verts \<Rightarrow>
             Inr (Some \<lparr>vertices = verts,
                        indices = quadIndices (length validInnerPoints) @
                                  closingIndices validInnerPoints\<rparr>)))"

text \<open>
  The component: nothing is rendered without centre points; otherwise the surface (when
  it can be built) and the two boundary point lists.
\<close>

record TrackView =
  asphalt :: "Geometry option"
  outerLine :: "Vector3 list"
  innerLine :: "Vector3 list"

definition Track :: "jsnum list list \<Rightarrow> error + TrackView option" where
  "Track trackPath =
     (let b = trackBoundaries trackPath in
      if length (centerPoints b) = 0 then Inr None
      else
        (let validCenterPoints = filter finitePoint (centerPoints b);
             validInnerPoints = filter finitePoint (innerPoints b);
             validOuterPoints = filter finitePoint (outerPoints b)
         in
         if length validCenterPoints < 2 then Inr None
         else
           (case asphaltGeometry validInnerPoints validOuterPoints of
              Inl e \<Rightarrow> Inl e
            | Inr geo \<Rightarrow>
                Inr (Some \<lparr>asphalt = geo, outerLine = validOuterPoints,
                           innerLine = validInnerPoints\<rparr>))))"

section \<open>Points on a straight line\<close>

text \<open>
  Used to state the straight-path property: the point at parameter \<open>s\<close> on the line through
  \<open>(bx, 0, bz)\<close> with unit direction \<open>(ux, 0, uz)\<close>, the vector of length \<open>d\<close> along the
  line, and the vector of length \<open>d\<close> across it in the ground plane.
\<close>

definition straightPoint :: "real \<Rightarrow> real \<Rightarrow> real \<Rightarrow> real \<Rightarrow> real \<Rightarrow> Vector3" where
  "straightPoint bx bz ux uz s = Vector3 (Num (bx + s * ux)) (Num 0) (Num (bz + s * uz))"

definition along :: "real \<Rightarrow> real \<Rightarrow> real \<Rightarrow> Vector3" where
  "along ux uz d = Vector3 (Num (d * ux)) (Num 0) (Num (d * uz))"

definition across :: "real \<Rightarrow> real \<Rightarrow> real \<Rightarrow> Vector3" where
  "across ux uz d = Vector3 (Num (- (d * uz))) (Num 0) (Num (d * ux))"

section \<open>Example data\<close>

definition exampleCar :: CarTelemetry where
  "exampleCar =
     \<lparr>driver = ''VER'',
      positions_normalized =
        [Triple (Num 0) (Num 0) (Num 0), Triple (Num 10) (Num 0) (Num 0),
         Triple (Num 20) (Num 0) (Num 0)],
      times_arr = [Num 0, Num 1, Num 2],
      throttle = [Num 0, Num 100, Num 0],
      brake = [BrakeBool False, BrakeBool False, BrakeBool False],
      speed = [Num 0, Num 200, Num 0]\<rparr>"

definition exampleMesh :: Mesh where
  "exampleMesh = \<lparr>position = Vector3 (Num 0) (Num 0) (Num 0), material = Some ''#FFFFFF''\<rparr>"

text \<open>A car whose recording ends with a repeated timestamp, and one that starts with one.\<close>

definition repeatedEndCar :: CarTelemetry where
  "repeatedEndCar = exampleCar\<lparr>times_arr := [Num 0, Num 1, Num 1]\<rparr>"


definition emptyCar :: CarTelemetry where
  "emptyCar =
     \<lparr>driver = ''HAM'', positions_normalized = [], times_arr = [], throttle = [],
      brake = [], speed = []\<rparr>"

text \<open>
  Track paths: three points on a straight line; a path whose first point is repeated; two
  points 0.09 apart and two points 0.05 apart.
\<close>

definition straightPath :: "jsnum list list" where
  "straightPath =
     [[Num 0, Num 0, Num 0], [Num 1, Num 0, Num 0], [Num 2, Num 0, Num 0]]"

definition duplicatePath :: "jsnum list list" where
  "duplicatePath =
     [[Num 0, Num 0, Num 0], [Num 0, Num 0, Num 0], [Num 1, Num 0, Num 0]]"

definition shortPath :: "jsnum list list" where
  "shortPath = [[Num 0, Num 0, Num 0], [Num 0.09, Num 0, Num 0]]"

definition shorterPath :: "jsnum list list" where
  "shorterPath = [[Num 0, Num 0, Num 0], [Num 0.05, Num 0, Num 0]]"

section \<open>Properties of the playback clock\<close>

text \<open>
  C8. \<open>advanceTime\<close> leaves the whole state unchanged when playback is paused; when playing
  it adds \<open>delta * playbackSpeed\<close> to the elapsed time and changes nothing else.
\<close>

theorem C8_advanceTime_frame:
  "(\<not> isPlaying s \<longrightarrow> advanceTime delta s = s) \<and>
   (isPlaying s \<longrightarrow>
      advanceTime delta s =
        s\<lparr>currentTimeRef := jadd (currentTimeRef s) (jmul delta (playbackSpeed s))\<rparr> \<and>
      currentTimeRef (advanceTime delta s) =
        jadd (currentTimeRef s) (jmul delta (playbackSpeed s)) \<and>
      isPlaying (advanceTime delta s) = isPlaying s \<and>
      playbackSpeed (advanceTime delta s) = playbackSpeed s \<and>
      currentTimeState (advanceTime delta s) = currentTimeState s)"
  by (simp add: advanceTime_def)

theorem C8_advanceTime_frame_witness:
  "advanceTime (Num 0.1) initialControls = initialControls \<and>
   currentTimeRef (advanceTime (Num 0.1) (setPlaybackSpeed (Num 2) (togglePlay initialControls)))
     = Num 0.2 \<and>
   isPlaying (advanceTime (Num 0.1) (setPlaybackSpeed (Num 2) (togglePlay initialControls))) \<and>
   playbackSpeed (advanceTime (Num 0.1) (setPlaybackSpeed (Num 2) (togglePlay initialControls)))
     = Num 2"
  using C8_advanceTime_frame [of initialControls "Num 0.1"]
    C8_advanceTime_frame [of "setPlaybackSpeed (Num 2) (togglePlay initialControls)" "Num 0.1"]
  by (simp add: initialControls_def togglePlay_def setPlaybackSpeed_def)

text \<open>
  C9. \<open>setPlaybackSpeed\<close> stores the multiplier it is given, whatever its value. The
  interval [0.5, 5] is kept by the two speed buttons: from a multiplier in the interval,
  speed-up stores \<open>min 5 (v + 0.5)\<close> and speed-down stores \<open>max 0.5 (v - 0.5)\<close>, both
  again in the interval.
\<close>

theorem C9_speed_buttons_keep_range:
  assumes "playbackSpeed s = Num v" and "0.5 \<le> v" and "v \<le> 5"
  shows "playbackSpeed (setPlaybackSpeed m s) = m \<and>
         playbackSpeed (speedUp s) = Num (min 5 (v + 0.5)) \<and>
         playbackSpeed (speedDown s) = Num (max 0.5 (v - 0.5)) \<and>
         0.5 \<le> min 5 (v + 0.5) \<and> min 5 (v + 0.5) \<le> 5 \<and>
         0.5 \<le> max 0.5 (v - 0.5) \<and> max 0.5 (v - 0.5) \<le> 5"
  using assms
  by (auto simp: setPlaybackSpeed_def speedUp_def speedDown_def jmin_def jmax_def jsub_def
      min_def max_def)

theorem C9_speed_buttons_keep_range_witness:
  "playbackSpeed initialControls = Num 1 \<and>
   playbackSpeed (setPlaybackSpeed (Num 10) initialControls) = Num 10 \<and>
   playbackSpeed (speedUp initialControls) = Num 1.5 \<and>
   playbackSpeed (speedDown initialControls) = Num 0.5"
  using C9_speed_buttons_keep_range [of initialControls 1 "Num 10"]
  by (simp add: initialControls_def)

theorem C9_setPlaybackSpeed_unclamped:
  "playbackSpeed (setPlaybackSpeed (Num 10) initialControls) = Num 10 \<and>
   jmin (Num 5) (jmax (Num 0.5) (Num 10)) = Num 5 \<and>
   playbackSpeed (setPlaybackSpeed (Num 10) initialControls)
     \<noteq> jmin (Num 5) (jmax (Num 0.5) (Num 10))"
  by (simp add: setPlaybackSpeed_def initialControls_def jmin_def jmax_def)

section \<open>Properties of the telemetry sampling\<close>

lemma jsub_Num [simp]: "jsub (Num a) (Num b) = Num (a - b)"
  by (simp add: jsub_def)

lemma jle_Num [simp]: "jle (Num a) (Num b) = (a \<le> b)"
  by (auto simp: jle_def)

lemma jge_Num [simp]: "jge (Num a) (Num b) = (b \<le> a)"
  by (simp add: jge_def)

lemma jgt_Num [simp]: "jgt (Num a) (Num b) = (b < a)"
  by (simp add: jgt_def)

lemma jmin_Num [simp]: "jmin (Num a) (Num b) = Num (min a b)"
  by (simp add: jmin_def min_def)

lemma jmax_Num [simp]: "jmax (Num a) (Num b) = Num (max a b)"
  by (simp add: jmax_def max_def)

lemma fraction_Num:
  "a \<noteq> b \<Longrightarrow> fraction (Num t) (Num a) (Num b) = Num (max 0 (min 1 ((t - a) / (b - a))))"
  by (simp add: fraction_def)

lemma lerp_Num [simp]: "lerp (Num a) (Num b) (Num f) = Num ((1 - f) * a + f * b)"
  by (simp add: lerp_def)

lemma arrayAt_int [simp]: "arrayAt xs (int i) = (if i < length xs then Some (xs ! i) else None)"
  by (simp add: arrayAt_def)

lemma arrayAt_pred:
  "1 \<le> i \<Longrightarrow> i \<le> length xs \<Longrightarrow> arrayAt xs (int i - 1) = Some (xs ! (i - 1))"
  by (simp add: arrayAt_def nat_diff_distrib')

lemma findIndex_lower: "- 1 \<le> findIndex P xs"
  by (induction xs) (auto simp: Let_def)

lemma findIndex_none: "(findIndex P xs = - 1) = (\<forall>a \<in> set xs. \<not> P a)"
proof (induction xs)
  case Nil
  show ?case by simp
next
  case (Cons a xs)
  have "- 1 \<le> findIndex P xs" by (rule findIndex_lower)
  with Cons show ?case by (auto simp: Let_def)
qed


lemma findIndex_first:
  "i < length xs \<Longrightarrow> P (xs ! i) \<Longrightarrow> \<forall>j<i. \<not> P (xs ! j) \<Longrightarrow> findIndex P xs = int i"
proof (induction xs arbitrary: i)
  case Nil
  then show ?case by simp
next
  case (Cons a xs)
  show ?case
  proof (cases i)
    case 0
    with Cons.prems show ?thesis by simp
  next
    case (Suc k)
    with Cons.prems have "\<not> P a" by auto
    moreover from Suc Cons.prems have "findIndex P xs = int k"
      by (intro Cons.IH) auto
    ultimately show ?thesis using Suc by (simp add: Let_def)
  qed
qed

text \<open>Interpolation at an index \<open>i \<ge> 1\<close> whose two timestamps differ.\<close>

lemma interpolate_at:
  assumes "times_arr car = map Num ts" and "1 \<le> i" and "i < length ts"
    and "ts ! (i - 1) \<noteq> ts ! i" and "i < length (positions_normalized car)"
  shows "interpolate (int i) (Num t) car mesh =
         color_set (carColor car (int i))
           (position_set
              (lerp (at0 (positions_normalized car ! (i - 1))) (at0 (positions_normalized car ! i))
                 (Num (max 0 (min 1 ((t - ts ! (i - 1)) / (ts ! i - ts ! (i - 1)))))))
              (Num 0.01)
              (lerp (at2 (positions_normalized car ! (i - 1))) (at2 (positions_normalized car ! i))
                 (Num (max 0 (min 1 ((t - ts ! (i - 1)) / (ts ! i - ts ! (i - 1)))))))
              mesh)"
proof -
  have t1: "arrayAt (times_arr car) (int i - 1) = Some (Num (ts ! (i - 1)))"
    using assms by (simp add: arrayAt_pred)
  have t2: "arrayAt (times_arr car) (int i) = Some (Num (ts ! i))"
    using assms by simp
  have p1: "arrayAt (positions_normalized car) (int i - 1)
              = Some (positions_normalized car ! (i - 1))"
    using assms by (simp add: arrayAt_pred)
  have p2: "arrayAt (positions_normalized car) (int i) = Some (positions_normalized car ! i)"
    using assms by simp
  show ?thesis
    unfolding interpolate_def t1 t2 p1 p2 using assms(4)
    by (simp add: fraction_Num Let_def)
qed

text \<open>The speed channel is never read.\<close>

lemma sampleCar_speed:
  "sampleCar playing currentTime (carData\<lparr>speed := sp\<rparr>) carRef
     = sampleCar playing currentTime carData carRef"
proof -
  have c: "carColor (carData\<lparr>speed := sp\<rparr>) k = carColor carData k" for k
    by (simp add: carColor_def)
  have i: "interpolate k currentTime (carData\<lparr>speed := sp\<rparr>) carRef
             = interpolate k currentTime carData carRef" for k
    by (simp add: interpolate_def c Let_def split: option.splits)
  show ?thesis
    by (simp add: sampleCar_def i Let_def split: option.splits)
qed

text \<open>
  C1. With strictly increasing finite sample times and a query time strictly between
  \<open>times[i-1]\<close> and \<open>times[i]\<close>, a playing car is placed at x and z interpolated linearly
  between the samples \<open>i-1\<close> and \<open>i\<close> with the fraction
  \<open>(t - times[i-1]) / (times[i] - times[i-1])\<close>, clamped to [0, 1]; its height is the
  constant 0.01; its colour is the one chosen from \<open>throttle[i]\<close> and \<open>brake[i]\<close>. The
  speed samples have no influence on the result.
\<close>

theorem C1_sample_interpolates:
  assumes "times_arr car = map Num ts" and "sorted_wrt (<) ts"
    and "1 \<le> i" and "i < length ts" and "ts ! (i - 1) < t" and "t < ts ! i"
    and "i < length (positions_normalized car)"
  shows "sampleCar True (Num t) car mesh =
         Inr (color_set (carColor car (int i))
           (position_set
              (lerp (at0 (positions_normalized car ! (i - 1))) (at0 (positions_normalized car ! i))
                 (Num (max 0 (min 1 ((t - ts ! (i - 1)) / (ts ! i - ts ! (i - 1)))))))
              (Num 0.01)
              (lerp (at2 (positions_normalized car ! (i - 1))) (at2 (positions_normalized car ! i))
                 (Num (max 0 (min 1 ((t - ts ! (i - 1)) / (ts ! i - ts ! (i - 1)))))))
              mesh)) \<and>
         sampleCar True (Num t) (car\<lparr>speed := sp\<rparr>) mesh = sampleCar True (Num t) car mesh"
proof -
  have before: "\<forall>j<i. \<not> jge (map Num ts ! j) (Num t)"
  proof (intro allI impI)
    fix j assume j: "j < i"
    then have "ts ! j \<le> ts ! (i - 1)"
    proof (cases "j = i - 1")
      case True
      then show ?thesis by simp
    next
      case False
      with j have "j < i - 1" by simp
      with assms(2,4) have "ts ! j < ts ! (i - 1)"
        by (simp add: sorted_wrt_nth_less)
      then show ?thesis by simp
    qed
    with assms(5) j assms(4) show "\<not> jge (map Num ts ! j) (Num t)" by simp
  qed
  have idx: "findIndex (\<lambda>x. jge x (Num t)) (times_arr car) = int i"
    unfolding assms(1)
    using assms(4,6) before by (intro findIndex_first) auto
  have ne: "ts ! (i - 1) \<noteq> ts ! i" using assms(5,6) by simp
  have i0: "int i \<noteq> - 1" "int i \<noteq> 0" using assms(3) by auto
  have "sampleCar True (Num t) car mesh = Inr (interpolate (int i) (Num t) car mesh)"
    unfolding sampleCar_def idx Let_def using i0 by simp
  then show ?thesis
    using interpolate_at [OF assms(1,3,4) ne assms(7)] sampleCar_speed [where playing = True and currentTime = "Num t" and carData = car
        and sp = sp and carRef = mesh]
    by simp
qed

theorem C1_sample_interpolates_witness:
  "sorted_wrt (<) [0, 1, 2 :: real] \<and>
   sampleCar True (Num 0.5) exampleCar exampleMesh =
     Inr \<lparr>position = Vector3 (Num 5) (Num 0.01) (Num 0), material = Some ''#03CEA4''\<rparr>"
  using C1_sample_interpolates [of exampleCar "[0, 1, 2]" 1 "0.5" exampleMesh "[]"]
  by (simp add: exampleCar_def exampleMesh_def carColor_def color_set_def position_set_def
      jor_def truthy_def arrayAt_def)

theorem C1_example_height:
  "sampleCar True (Num 0.5) exampleCar exampleMesh =
     Inr \<lparr>position = Vector3 (Num 5) (Num 0.01) (Num 0), material = Some ''#03CEA4''\<rparr> \<and>
   Vector3 (Num 5) (Num 0.01) (Num 0) \<noteq> Vector3 (Num 5) (Num 0) (Num 0)"
  by (simp add: sampleCar_def interpolate_def fraction_def exampleCar_def exampleMesh_def
      carColor_def color_set_def position_set_def jor_def truthy_def Let_def arrayAt_def)

text \<open>
  C4. A playing car with no samples: the search finds no index, the last position is read
  at index -1 and its first component is read from \<open>undefined\<close>. The callback throws, and
  the pass over the fleet ends there.
\<close>

theorem C4_empty_series_throws:
  "sampleCar True currentTime emptyCar carRef = Inl TypeError \<and>
   carsForEach True currentTime [emptyCar, exampleCar]
     [''HAM'' \<mapsto> exampleMesh, ''VER'' \<mapsto> exampleMesh] = Inl TypeError"
  by (simp add: sampleCar_def emptyCar_def arrayAt_def)

text \<open>The three ways a playing car reaches a boundary sample.\<close>

lemma sample_before_first:
  assumes "times_arr car = map Num ts" and "ts \<noteq> []" and "positions_normalized car \<noteq> []"
    and "t \<le> ts ! 0"
  shows "sampleCar True (Num t) car mesh =
         Inr (position_set (at0 (positions_normalized car ! 0)) (Num 0.01)
                (at2 (positions_normalized car ! 0)) mesh)"
proof -
  from assms(2) obtain a rest where ts: "ts = a # rest" by (cases ts) auto
  have idx: "findIndex (\<lambda>x. jge x (Num t)) (times_arr car) = 0"
    using assms(1,4) ts by simp
  have t0: "arrayAt (times_arr car) 0 = Some (Num a)"
    using assms(1) ts by (simp add: arrayAt_def)
  have p0: "arrayAt (positions_normalized car) 0 = Some (positions_normalized car ! 0)"
    using assms(3) by (simp add: arrayAt_def)
  show ?thesis
    unfolding sampleCar_def idx Let_def t0 p0 using assms(4) ts by simp
qed

lemma sample_after_last:
  assumes "times_arr car = map Num ts" and "ts \<noteq> []"
    and "length (positions_normalized car) = length ts" and "\<forall>a \<in> set ts. a < t"
  shows "sampleCar True (Num t) car mesh =
         Inr (position_set (at0 (last (positions_normalized car))) (Num 0.01)
                (at2 (last (positions_normalized car))) mesh)"
proof -
  have idx: "findIndex (\<lambda>x. jge x (Num t)) (times_arr car) = - 1"
    unfolding findIndex_none assms(1) using assms(4) by auto
  have ne: "positions_normalized car \<noteq> []" using assms(2,3) by auto
  have pl: "arrayAt (positions_normalized car) (int (length (times_arr car)) - 1)
              = Some (last (positions_normalized car))"
  proof -
    have "1 \<le> length ts" using assms(2) by (cases ts) auto
    then have "arrayAt (positions_normalized car) (int (length ts) - 1)
                 = Some (positions_normalized car ! (length ts - 1))"
      using assms(3) by (intro arrayAt_pred) auto
    then show ?thesis using assms(1,3) ne by (simp add: last_conv_nth)
  qed
  show ?thesis
    unfolding sampleCar_def idx Let_def pl by simp
qed

lemma sample_at_last:
  assumes "times_arr car = map Num ts" and "sorted ts" and "2 \<le> length ts"
    and "length (positions_normalized car) = length ts"
    and "ts ! (length ts - 2) < last ts"
    and "\<forall>p \<in> set (positions_normalized car). isFinite (at0 p) \<and> isFinite (at2 p)"
  shows "sampleCar True (Num (last ts)) car mesh =
         Inr (color_set (carColor car (int (length ts - 1)))
                (position_set (at0 (last (positions_normalized car))) (Num 0.01)
                   (at2 (last (positions_normalized car))) mesh))"
proof -
  define i where "i = length ts - 1"
  have tne: "ts \<noteq> []" using assms(3) by auto
  have i: "1 \<le> i" "i < length ts" "i - 1 = length ts - 2" "last ts = ts ! i"
    using assms(3) tne by (auto simp: i_def last_conv_nth)
  have lt: "ts ! (i - 1) < ts ! i" using assms(5) i by simp
  have before: "\<forall>j<i. \<not> jge (map Num ts ! j) (Num (ts ! i))"
  proof (intro allI impI)
    fix j assume j: "j < i"
    then have "j \<le> i - 1" by simp
    with assms(2) i(2) have "ts ! j \<le> ts ! (i - 1)"
      by (intro sorted_nth_mono) auto
    with lt j i(2) show "\<not> jge (map Num ts ! j) (Num (ts ! i))" by simp
  qed
  have idx: "findIndex (\<lambda>x. jge x (Num (ts ! i))) (times_arr car) = int i"
    unfolding assms(1) using i(2) before by (intro findIndex_first) auto
  have i0: "int i \<noteq> - 1" "int i \<noteq> 0" using i(1) by auto
  have s: "sampleCar True (Num (ts ! i)) car mesh = Inr (interpolate (int i) (Num (ts ! i)) car mesh)"
    unfolding sampleCar_def idx Let_def using i0 by simp
  have ne: "ts ! (i - 1) \<noteq> ts ! i" using lt by simp
  have pi: "i < length (positions_normalized car)" using assms(4) i(2) by simp
  have pin: "positions_normalized car ! (i - 1) \<in> set (positions_normalized car)"
    "positions_normalized car ! i \<in> set (positions_normalized car)"
    using pi by auto
  obtain a0 a2 b0 b2 where fin:
    "at0 (positions_normalized car ! (i - 1)) = Num a0"
    "at2 (positions_normalized car ! (i - 1)) = Num a2"
    "at0 (positions_normalized car ! i) = Num b0"
    "at2 (positions_normalized car ! i) = Num b2"
    using assms(6) pin by (metis isFinite.elims(2))
  have lastp: "last (positions_normalized car) = positions_normalized car ! i"
    using assms(3,4) by (cases "positions_normalized car = []") (auto simp: last_conv_nth i_def)
  have fr: "(ts ! i - ts ! (i - 1)) / (ts ! i - ts ! (i - 1)) = 1" using ne by simp
  show ?thesis
    unfolding i(4) s interpolate_at [OF assms(1) i(1,2) ne pi] fin lastp fr
    by (simp add: i_def)
qed

text \<open>
  C2. For a non-empty recording with parallel arrays and non-decreasing finite times, a
  playing car queried at or before the first sample time is placed at the first sample's
  x and z, and one queried after the last sample time at the last sample's x and z; the
  height is the constant 0.01 in both cases and nothing else of the mesh changes. A
  query exactly at the last sample time gives the last sample's x and z as well when the
  last two times differ and the positions are finite (it is reached by interpolation
  with fraction 1, which also sets the colour). When the first sample time is not
  negative, a query before time zero gives what the query at time zero gives.
\<close>

theorem C2_sample_clamps_to_boundary:
  assumes "times_arr car = map Num ts" and "ts \<noteq> []"
    and "length (positions_normalized car) = length ts" and "sorted ts"
  shows
    "(t \<le> ts ! 0 \<longrightarrow>
        sampleCar True (Num t) car mesh =
          Inr (position_set (at0 (positions_normalized car ! 0)) (Num 0.01)
                 (at2 (positions_normalized car ! 0)) mesh)) \<and>
     (last ts < t \<longrightarrow>
        sampleCar True (Num t) car mesh =
          Inr (position_set (at0 (last (positions_normalized car))) (Num 0.01)
                 (at2 (last (positions_normalized car))) mesh)) \<and>
     (t = last ts \<and> 2 \<le> length ts \<and> ts ! (length ts - 2) < last ts \<and>
      (\<forall>p \<in> set (positions_normalized car). isFinite (at0 p) \<and> isFinite (at2 p)) \<longrightarrow>
        sampleCar True (Num t) car mesh =
          Inr (color_set (carColor car (int (length ts - 1)))
                 (position_set (at0 (last (positions_normalized car))) (Num 0.01)
                    (at2 (last (positions_normalized car))) mesh))) \<and>
     (t < 0 \<and> 0 \<le> ts ! 0 \<longrightarrow>
        sampleCar True (Num t) car mesh = sampleCar True (Num 0) car mesh)"
proof (intro conjI impI)
  have ne: "positions_normalized car \<noteq> []" using assms(2,3) by auto
  assume "t \<le> ts ! 0"
  then show "sampleCar True (Num t) car mesh =
          Inr (position_set (at0 (positions_normalized car ! 0)) (Num 0.01)
                 (at2 (positions_normalized car ! 0)) mesh)"
    using assms(1,2) ne by (rule sample_before_first [rotated 3])
next
  assume lt: "last ts < t"
  have "\<forall>a \<in> set ts. a < t"
  proof
    fix a assume "a \<in> set ts"
    then obtain k where k: "k < length ts" "a = ts ! k"
      by (auto simp: in_set_conv_nth)
    with assms(4) have "ts ! k \<le> ts ! (length ts - 1)"
      by (intro sorted_nth_mono) auto
    with k assms(2) have "a \<le> last ts" by (simp add: last_conv_nth)
    with lt show "a < t" by simp
  qed
  with assms(1,2,3) show "sampleCar True (Num t) car mesh =
          Inr (position_set (at0 (last (positions_normalized car))) (Num 0.01)
                 (at2 (last (positions_normalized car))) mesh)"
    by (rule sample_after_last)
next
  assume h: "t = last ts \<and> 2 \<le> length ts \<and> ts ! (length ts - 2) < last ts \<and>
      (\<forall>p \<in> set (positions_normalized car). isFinite (at0 p) \<and> isFinite (at2 p))"
  then show "sampleCar True (Num t) car mesh =
          Inr (color_set (carColor car (int (length ts - 1)))
                 (position_set (at0 (last (positions_normalized car))) (Num 0.01)
                    (at2 (last (positions_normalized car))) mesh))"
    using sample_at_last [OF assms(1,4) _ assms(3)] by simp
next
  have ne: "positions_normalized car \<noteq> []" using assms(2,3) by auto
  assume "t < 0 \<and> 0 \<le> ts ! 0"
  then have "t \<le> ts ! 0" "0 \<le> ts ! 0" by simp_all
  then show "sampleCar True (Num t) car mesh = sampleCar True (Num 0) car mesh"
    using sample_before_first [OF assms(1,2) ne] by simp
qed

theorem C2_sample_clamps_to_boundary_witness:
  "sorted [0, 1, 2 :: real] \<and>
   sampleCar True (Num (- 1)) exampleCar exampleMesh =
     Inr \<lparr>position = Vector3 (Num 0) (Num 0.01) (Num 0), material = Some ''#FFFFFF''\<rparr> \<and>
   sampleCar True (Num 3) exampleCar exampleMesh =
     Inr \<lparr>position = Vector3 (Num 20) (Num 0.01) (Num 0), material = Some ''#FFFFFF''\<rparr> \<and>
   sampleCar True (Num 2) exampleCar exampleMesh =
     Inr \<lparr>position = Vector3 (Num 20) (Num 0.01) (Num 0), material = Some ''#FFFFFF''\<rparr>"
  using C2_sample_clamps_to_boundary [of exampleCar "[0, 1, 2]" "- 1" exampleMesh]
    C2_sample_clamps_to_boundary [of exampleCar "[0, 1, 2]" 3 exampleMesh]
    C2_sample_clamps_to_boundary [of exampleCar "[0, 1, 2]" 2 exampleMesh]
  by (simp add: exampleCar_def exampleMesh_def carColor_def color_set_def position_set_def
      jor_def truthy_def arrayAt_def)

theorem C2_boundary_not_verbatim:
  "sampleCar True (Num 1) repeatedEndCar exampleMesh =
     Inr \<lparr>position = Vector3 (Num 10) (Num 0.01) (Num 0), material = Some ''#03CEA4''\<rparr> \<and>
   last (times_arr repeatedEndCar) = Num 1 \<and>
   last (positions_normalized repeatedEndCar) = Triple (Num 20) (Num 0) (Num 0) \<and>
   Num 10 \<noteq> Num 20 \<and>
   sampleCar True (Num 0) exampleCar exampleMesh =
     Inr \<lparr>position = Vector3 (Num 0) (Num 0.01) (Num 0), material = Some ''#FFFFFF''\<rparr> \<and>
   positions_normalized exampleCar ! 0 = Triple (Num 0) (Num 0) (Num 0) \<and>
   Num 0.01 \<noteq> Num 0"
  by (simp add: sampleCar_def interpolate_def fraction_def exampleCar_def exampleMesh_def
      repeatedEndCar_def carColor_def color_set_def position_set_def jor_def truthy_def
      Let_def arrayAt_def)


lemma position_color_set [simp]: "position (color_set c m) = position m"
  by (simp add: color_set_def split: option.splits)

lemma position_position_set [simp]: "position (position_set a b c m) = Vector3 a b c"
  by (simp add: position_set_def)





section \<open>Properties of the track geometry\<close>

lemma length_v3_Num [simp]:
  "length_v3 (Vector3 (Num a) (Num b) (Num c)) = Num (sqrt (a * a + b * b + c * c))"
  by (simp add: length_v3_def not_less)

lemma finitePoint_iff: "finitePoint p = (\<exists>a b c. p = Vector3 (Num a) (Num b) (Num c))"
proof
  assume "finitePoint p"
  then show "\<exists>a b c. p = Vector3 (Num a) (Num b) (Num c)"
    by (cases p; cases "vx p"; cases "vy p"; cases "vz p") (auto simp: finitePoint_def)
next
  assume "\<exists>a b c. p = Vector3 (Num a) (Num b) (Num c)"
  then show "finitePoint p" by (auto simp: finitePoint_def)
qed

lemma finitePoint_Num [simp]: "finitePoint (Vector3 (Num a) (Num b) (Num c))"
  by (simp add: finitePoint_def)

lemma finite_subVectors: "finitePoint a \<Longrightarrow> finitePoint b \<Longrightarrow> finitePoint (subVectors a b)"
  by (auto simp: finitePoint_iff subVectors_def)

lemma finite_addVectors: "finitePoint a \<Longrightarrow> finitePoint b \<Longrightarrow> finitePoint (addVectors a b)"
  by (auto simp: finitePoint_iff addVectors_def)

lemma normalize_Num:
  "normalize_v3 (Vector3 (Num a) (Num b) (Num c)) =
     (let l = sqrt (a * a + b * b + c * c); d = (if l = 0 then 1 else l)
      in Vector3 (Num (a * (1 / d))) (Num (b * (1 / d))) (Num (c * (1 / d))))"
  by (simp add: normalize_v3_def divideScalar_def multiplyScalar_def jor_def truthy_def Let_def)

lemma finite_normalize: "finitePoint a \<Longrightarrow> finitePoint (normalize_v3 a)"
  by (auto simp: finitePoint_iff normalize_Num Let_def)

lemma finite_perp: "finitePoint n \<Longrightarrow> finitePoint (Vector3 (jneg (vz n)) (Num 0) (vx n))"
  by (auto simp: finitePoint_iff)

lemma offsetPair_Num:
  "offsetPair (Vector3 (Num a) (Num b) (Num c)) (Vector3 (Num n1) (Num n2) (Num n3)) =
     (Vector3 (Num (a + n1 * (- 0.04))) (Num (b + n2 * (- 0.04))) (Num (c + n3 * (- 0.04))),
      Vector3 (Num (a + n1 * 0.04)) (Num (b + n2 * 0.04)) (Num (c + n3 * 0.04)))"
  by (simp add: offsetPair_def addScaledVector_def trackWidth_def)

lemma finite_offsetPair:
  "finitePoint c \<Longrightarrow> finitePoint n \<Longrightarrow>
     finitePoint (fst (offsetPair c n)) \<and> finitePoint (snd (offsetPair c n))"
  by (auto simp: finitePoint_iff offsetPair_Num)

lemma boundaryStep_length:
  "length (fst (boundaryStep points i (inn, out))) = Suc (length inn) \<and>
   length (snd (boundaryStep points i (inn, out))) = Suc (length out)"
  by (simp add: boundaryStep_def Let_def split_beta)

lemma boundaryStep_finite:
  assumes "\<forall>p \<in> set points. finitePoint p" and "i < length points"
    and "\<forall>p \<in> set inn. finitePoint p" and "\<forall>p \<in> set out. finitePoint p"
    and "length inn = length out"
  shows "(\<forall>p \<in> set (fst (boundaryStep points i (inn, out))). finitePoint p) \<and>
         (\<forall>p \<in> set (snd (boundaryStep points i (inn, out))). finitePoint p)"
proof -
  have c: "finitePoint (points ! i)" using assms(1,2) by simp
  have p: "finitePoint (points ! (if 0 < i then i - 1 else length points - 1))"
    using assms(1,2) by auto
  have "(if i < length points - 1 then i + 1 else 0) < length points"
    using assms(2) by auto
  then have n: "finitePoint (points ! (if i < length points - 1 then i + 1 else 0))"
    using assms(1) nth_mem by blast
  have l: "finitePoint (last inn) \<and> finitePoint (last out)" if "0 < length inn"
  proof -
    from that assms(5) have "inn \<noteq> []" "out \<noteq> []" by auto
    then have "last inn \<in> set inn" "last out \<in> set out" by simp_all
    with assms(3,4) show ?thesis by blast
  qed
  note fin = finite_subVectors finite_addVectors finite_normalize finite_perp finite_offsetPair
  show ?thesis
    using c p n l assms(3,4)
    by (simp add: boundaryStep_def Let_def split_beta fin)
qed

lemma boundaryFold_length:
  "length (fst (fold (boundaryStep points) js (inn, out))) = length inn + length js \<and>
   length (snd (fold (boundaryStep points) js (inn, out))) = length out + length js"
proof (induction js arbitrary: inn out)
  case Nil
  show ?case by simp
next
  case (Cons j js)
  obtain inn' out' where st: "boundaryStep points j (inn, out) = (inn', out')"
    by (cases "boundaryStep points j (inn, out)") auto
  from boundaryStep_length [of points j inn out] st
  have "length inn' = Suc (length inn)" "length out' = Suc (length out)" by auto
  with Cons.IH [of inn' out'] st show ?case by simp
qed

lemma boundaryFold_finite:
  assumes "\<forall>p \<in> set points. finitePoint p" and "\<forall>j \<in> set js. j < length points"
    and "\<forall>p \<in> set inn. finitePoint p" and "\<forall>p \<in> set out. finitePoint p"
    and "length inn = length out"
  shows "(\<forall>p \<in> set (fst (fold (boundaryStep points) js (inn, out))). finitePoint p) \<and>
         (\<forall>p \<in> set (snd (fold (boundaryStep points) js (inn, out))). finitePoint p)"
  using assms(2-)
proof (induction js arbitrary: inn out)
  case Nil
  then show ?case by simp
next
  case (Cons j js)
  obtain inn' out' where st: "boundaryStep points j (inn, out) = (inn', out')"
    by (cases "boundaryStep points j (inn, out)") auto
  from Cons.prems have j: "j < length points" by simp
  from boundaryStep_finite [OF assms(1) j Cons.prems(2,3,4)] st
  have f: "\<forall>p \<in> set inn'. finitePoint p" "\<forall>p \<in> set out'. finitePoint p" by auto
  from boundaryStep_length [of points j inn out] st Cons.prems(4)
  have l: "length inn' = length out'" by auto
  from Cons.prems(1) have js: "\<forall>j \<in> set js. j < length points" by simp
  from Cons.IH [OF js f l] st show ?case by simp
qed

lemma boundaryLoop_length:
  "length (fst (boundaryLoop points)) = length points \<and>
   length (snd (boundaryLoop points)) = length points"
  using boundaryFold_length [of points "[0..<length points]" "[]" "[]"]
  by (simp add: boundaryLoop_def)

lemma boundaryLoop_finite:
  assumes "\<forall>p \<in> set points. finitePoint p"
  shows "(\<forall>p \<in> set (fst (boundaryLoop points)). finitePoint p) \<and>
         (\<forall>p \<in> set (snd (boundaryLoop points)). finitePoint p)"
  unfolding boundaryLoop_def
  by (rule boundaryFold_finite [OF assms]) auto

lemma toPoints_finite: "\<forall>p \<in> set (toPoints trackPath). finitePoint p"
proof -
  have "finitePoint (Vector3 (point ! 0) (Num 0) (point ! 2))" if "validPoint point" for point
    using that by (cases "point ! 0"; cases "point ! 2") (auto simp: validPoint_def)
  then show ?thesis by (auto simp: toPoints_def)
qed

lemma trackBoundaries_length:
  "length (innerPoints (trackBoundaries trackPath)) = length (centerPoints (trackBoundaries trackPath)) \<and>
   length (outerPoints (trackBoundaries trackPath)) = length (centerPoints (trackBoundaries trackPath))"
  using boundaryLoop_length [of "toPoints trackPath"]
  by (auto simp: trackBoundaries_def Let_def split: prod.splits)

lemma trackBoundaries_finite:
  "(\<forall>p \<in> set (centerPoints (trackBoundaries trackPath)). finitePoint p) \<and>
   (\<forall>p \<in> set (innerPoints (trackBoundaries trackPath)). finitePoint p) \<and>
   (\<forall>p \<in> set (outerPoints (trackBoundaries trackPath)). finitePoint p)"
  using boundaryLoop_finite [OF toPoints_finite, of trackPath] toPoints_finite [of trackPath]
  by (auto simp: trackBoundaries_def Let_def split: prod.splits)

lemma pushVertices_ok:
  "i + length vi \<le> length vo \<Longrightarrow>
     \<exists>v. pushVertices vi i vo verts = Inr v \<and> length v = length verts + 6 * length vi"
proof (induction vi arbitrary: i verts)
  case Nil
  show ?case by simp
next
  case (Cons a vi)
  then have "i < length vo" "Suc i + length vi \<le> length vo" by auto
  with Cons.IH [of "Suc i"] show ?case by (simp add: arrayAt_def) fastforce
qed

lemma asphaltGeometry_ok:
  assumes "length vi \<le> length vo"
  shows "\<exists>g. asphaltGeometry vi vo = Inr g"
proof -
  from pushVertices_ok [of 0 vi vo "[]"] assms
  obtain v where "pushVertices vi 0 vo [] = Inr v" by auto
  then show ?thesis by (simp add: asphaltGeometry_def)
qed

lemma Track_valid_points:
  "filter finitePoint (innerPoints (trackBoundaries trackPath)) = innerPoints (trackBoundaries trackPath) \<and>
   filter finitePoint (outerPoints (trackBoundaries trackPath)) = outerPoints (trackBoundaries trackPath) \<and>
   filter finitePoint (centerPoints (trackBoundaries trackPath)) = centerPoints (trackBoundaries trackPath)"
  using trackBoundaries_finite [of trackPath] by (simp add: filter_id_conv)

lemma Track_ok: "\<exists>view. Track trackPath = Inr view"
proof -
  have "length (innerPoints (trackBoundaries trackPath)) \<le> length (outerPoints (trackBoundaries trackPath))"
    using trackBoundaries_length [of trackPath] by simp
  from asphaltGeometry_ok [OF this]
  obtain g where "asphaltGeometry (innerPoints (trackBoundaries trackPath))
                    (outerPoints (trackBoundaries trackPath)) = Inr g" by auto
  then show ?thesis
    by (simp add: Track_def Let_def Track_valid_points)
qed

lemma toPoints_length: "length (toPoints trackPath) \<le> length trackPath"
  by (simp add: toPoints_def)

text \<open>
  C10. Every iteration of the boundary loop appends one inner and one outer point, so
  both arrays are as long as the list of valid centre points, for every path. The
  finiteness filters keep all of them, the vertex loop finds an outer point at every
  index of the inner points, and the component does not throw.
\<close>

theorem C10_boundaries_parallel:
  "length (fst (boundaryLoop points)) = length points \<and>
   length (snd (boundaryLoop points)) = length points \<and>
   length (innerPoints (trackBoundaries trackPath))
     = length (outerPoints (trackBoundaries trackPath)) \<and>
   length (innerPoints (trackBoundaries trackPath))
     = length (centerPoints (trackBoundaries trackPath)) \<and>
   (2 \<le> length (toPoints trackPath) \<longrightarrow>
      centerPoints (trackBoundaries trackPath) = toPoints trackPath) \<and>
   length (filter finitePoint (innerPoints (trackBoundaries trackPath)))
     = length (filter finitePoint (outerPoints (trackBoundaries trackPath))) \<and>
   (\<exists>verts. pushVertices (filter finitePoint (innerPoints (trackBoundaries trackPath))) 0
               (filter finitePoint (outerPoints (trackBoundaries trackPath))) [] = Inr verts) \<and>
   (\<exists>view. Track trackPath = Inr view)"
proof -
  have c: "2 \<le> length (toPoints trackPath) \<longrightarrow>
      centerPoints (trackBoundaries trackPath) = toPoints trackPath"
    using toPoints_length [of trackPath]
    by (auto simp: trackBoundaries_def Let_def split: prod.splits)
  have l: "length (innerPoints (trackBoundaries trackPath))
             = length (outerPoints (trackBoundaries trackPath))"
    using trackBoundaries_length [of trackPath] by simp
  have v: "\<exists>verts. pushVertices (filter finitePoint (innerPoints (trackBoundaries trackPath))) 0
               (filter finitePoint (outerPoints (trackBoundaries trackPath))) [] = Inr verts"
    using pushVertices_ok [of 0 "innerPoints (trackBoundaries trackPath)"
        "outerPoints (trackBoundaries trackPath)" "[]"] l
    by (auto simp: Track_valid_points)
  show ?thesis
    using boundaryLoop_length [of points] trackBoundaries_length [of trackPath] c l v
      Track_ok [of trackPath]
    by (simp add: Track_valid_points)
qed

lemma toPoints_straightPath:
  "toPoints straightPath =
     [Vector3 (Num 0) (Num 0) (Num 0), Vector3 (Num 1) (Num 0) (Num 0),
      Vector3 (Num 2) (Num 0) (Num 0)]"
  by (simp add: toPoints_def straightPath_def validPoint_def)

theorem C10_boundaries_parallel_witness:
  "length (toPoints straightPath) = 3 \<and>
   length (centerPoints (trackBoundaries straightPath)) = 3 \<and>
   length (innerPoints (trackBoundaries straightPath)) = 3 \<and>
   length (outerPoints (trackBoundaries straightPath)) = 3"
proof -
  note c = C10_boundaries_parallel [of "toPoints straightPath" straightPath]
  have n: "length (toPoints straightPath) = 3" by (simp add: toPoints_straightPath)
  with c have "centerPoints (trackBoundaries straightPath) = toPoints straightPath" by simp
  with c n show ?thesis by simp
qed

lemma toPoints_duplicatePath:
  "toPoints duplicatePath =
     [Vector3 (Num 0) (Num 0) (Num 0), Vector3 (Num 0) (Num 0) (Num 0),
      Vector3 (Num 1) (Num 0) (Num 0)]"
  by (simp add: toPoints_def duplicatePath_def validPoint_def)

text \<open>The definitions a concrete boundary computation unfolds.\<close>

lemmas vec_simps = boundaryStep_def Let_def subVectors_def addVectors_def normalize_v3_def
  divideScalar_def multiplyScalar_def jor_def truthy_def offsetPair_def addScaledVector_def
  trackWidth_def

lemma sqrt_4_625: "sqrt (4 / 625) = 2 / 25"
  by (rule real_sqrt_unique) (simp_all add: power2_eq_square)

lemma boundaryLoop_duplicatePath:
  "boundaryLoop (toPoints duplicatePath) =
     ([Vector3 (Num (- 0.04)) (Num 0) (Num 0), Vector3 (Num (- 0.04)) (Num 0) (Num 0),
       Vector3 (Num 1) (Num 0) (Num (- 0.04))],
      [Vector3 (Num 0.04) (Num 0) (Num 0), Vector3 (Num 0.04) (Num 0) (Num 0),
       Vector3 (Num 1) (Num 0) (Num 0.04)])"
  by (simp add: toPoints_duplicatePath boundaryLoop_def vec_simps sqrt_4_625)

lemma finitePoint_components:
  "finitePoint p \<Longrightarrow> isFinite (vx p) \<and> isFinite (vy p) \<and> isFinite (vz p)"
  by (simp add: finitePoint_def)

lemma pushVertices_finite:
  assumes "\<forall>p \<in> set vo. finitePoint p"
  shows "\<forall>p \<in> set vi. finitePoint p \<Longrightarrow> \<forall>a \<in> set verts. isFinite a \<Longrightarrow>
         pushVertices vi i vo verts = Inr v \<Longrightarrow> \<forall>a \<in> set v. isFinite a"
proof (induction vi arbitrary: i verts)
  case Nil
  then show ?case by simp
next
  case (Cons q vi)
  from Cons.prems(3) obtain outer where o: "arrayAt vo (int i) = Some outer"
    and r: "pushVertices vi (i + 1) vo
              (verts @ [vx q, vy q, vz q] @ [vx outer, vy outer, vz outer]) = Inr v"
    by (auto split: option.splits)
  from o have "outer \<in> set vo" by (auto simp: arrayAt_def split: if_splits)
  with assms have "finitePoint outer" by simp
  moreover from Cons.prems(1) have "finitePoint q" by simp
  ultimately have "\<forall>a \<in> set (verts @ [vx q, vy q, vz q] @ [vx outer, vy outer, vz outer]).
      isFinite a"
    using Cons.prems(2) by (auto dest: finitePoint_components)
  with Cons.IH [OF _ _ r] Cons.prems(1) show ?case by simp
qed

lemma Track_vertices_finite:
  assumes "Track trackPath = Inr (Some view)" and "asphalt view = Some g"
  shows "\<forall>a \<in> set (vertices g). isFinite a"
proof -
  let ?inn = "innerPoints (trackBoundaries trackPath)"
  let ?out = "outerPoints (trackBoundaries trackPath)"
  from assms have "asphaltGeometry ?inn ?out = Inr (Some g)"
    by (auto simp: Track_def Let_def Track_valid_points split: if_splits sum.splits)
  then have "pushVertices ?inn 0 ?out [] = Inr (vertices g)"
    by (auto simp: asphaltGeometry_def split: if_splits sum.splits)
  with pushVertices_finite [of ?out ?inn "[]" 0 "vertices g"] trackBoundaries_finite [of trackPath]
  show ?thesis by simp
qed

lemma boundaryStep_degenerate:
  assumes "jlt (length_v3 (subVectors (points ! i)
                  (points ! (if 0 < i then i - 1 else length points - 1)))) (Num 0.0001) \<or>
           jlt (length_v3 (subVectors (points ! (if i < length points - 1 then i + 1 else 0))
                  (points ! i))) (Num 0.0001)"
  shows "boundaryStep points i (inn, out) =
         (inn @ [fst (offsetPair (points ! i)
                   (if 0 < length inn then normalize_v3 (subVectors (last out) (last inn))
                    else Vector3 (Num 1) (Num 0) (Num 0)))],
          out @ [snd (offsetPair (points ! i)
                   (if 0 < length inn then normalize_v3 (subVectors (last out) (last inn))
                    else Vector3 (Num 1) (Num 0) (Num 0)))])"
  using assms by (simp add: boundaryStep_def Let_def split_beta)

lemma offsetPair_normal:
  assumes "a * a + c * c = 1"
  shows "normalize_v3
           (subVectors (snd (offsetPair (Vector3 (Num x) (Num y) (Num z))
                               (Vector3 (Num a) (Num 0) (Num c))))
              (fst (offsetPair (Vector3 (Num x) (Num y) (Num z))
                      (Vector3 (Num a) (Num 0) (Num c)))))
         = Vector3 (Num a) (Num 0) (Num c)"
proof -
  have "(2 / 25 * a) * (2 / 25 * a) + (2 / 25 * c) * (2 / 25 * c) = 4 / 625 * (a * a + c * c)"
    by (simp add: algebra_simps)
  also have "\<dots> = 4 / 625" by (simp only: assms mult_1_right)
  finally have s: "sqrt ((2 / 25 * a) * (2 / 25 * a) + 0 * 0 + (2 / 25 * c) * (2 / 25 * c)) = 2 / 25"
    by (simp only: sqrt_4_625 mult_zero_left add_0_right)
  have d: "subVectors (snd (offsetPair (Vector3 (Num x) (Num y) (Num z))
                               (Vector3 (Num a) (Num 0) (Num c))))
              (fst (offsetPair (Vector3 (Num x) (Num y) (Num z))
                      (Vector3 (Num a) (Num 0) (Num c))))
           = Vector3 (Num (2 / 25 * a)) (Num 0) (Num (2 / 25 * c))"
    by (simp add: offsetPair_Num subVectors_def)
  show ?thesis
    unfolding d normalize_Num s by (simp add: Let_def)
qed

lemma trackBoundaries_duplicatePath:
  "trackBoundaries duplicatePath =
     \<lparr>centerPoints =
        [Vector3 (Num 0) (Num 0) (Num 0), Vector3 (Num 0) (Num 0) (Num 0),
         Vector3 (Num 1) (Num 0) (Num 0)],
      innerPoints =
        [Vector3 (Num (- 0.04)) (Num 0) (Num 0), Vector3 (Num (- 0.04)) (Num 0) (Num 0),
         Vector3 (Num 1) (Num 0) (Num (- 0.04))],
      outerPoints =
        [Vector3 (Num 0.04) (Num 0) (Num 0), Vector3 (Num 0.04) (Num 0) (Num 0),
         Vector3 (Num 1) (Num 0) (Num 0.04)]\<rparr>"
proof -
  have "length duplicatePath = 3" by (simp add: duplicatePath_def)
  then show ?thesis
    unfolding trackBoundaries_def Let_def boundaryLoop_duplicatePath
    by (simp add: toPoints_duplicatePath)
qed

text \<open>
  C6. Every inner and outer boundary point, and every vertex coordinate of the surface,
  is finite, for every path (so also for one in which a point repeats its neighbour).
  When one of the two directions at a point is shorter than 0.0001, the iteration offsets
  the point along the normalised difference of the previous outer and inner points when
  there is a previous pair, and along the default normal (1, 0, 0) otherwise; for a
  previous pair built from a unit normal that difference is the previous normal itself.
\<close>

theorem C6_no_non_finite_vertex:
  "(\<forall>p \<in> set (innerPoints (trackBoundaries trackPath)). finitePoint p) \<and>
   (\<forall>p \<in> set (outerPoints (trackBoundaries trackPath)). finitePoint p) \<and>
   (\<forall>view g. Track trackPath = Inr (Some view) \<and> asphalt view = Some g \<longrightarrow>
      (\<forall>a \<in> set (vertices g). isFinite a)) \<and>
   (jlt (length_v3 (subVectors (points ! i)
           (points ! (if 0 < i then i - 1 else length points - 1)))) (Num 0.0001) \<or>
    jlt (length_v3 (subVectors (points ! (if i < length points - 1 then i + 1 else 0))
           (points ! i))) (Num 0.0001) \<longrightarrow>
      boundaryStep points i (inn, out) =
        (inn @ [fst (offsetPair (points ! i)
                  (if 0 < length inn then normalize_v3 (subVectors (last out) (last inn))
                   else Vector3 (Num 1) (Num 0) (Num 0)))],
         out @ [snd (offsetPair (points ! i)
                  (if 0 < length inn then normalize_v3 (subVectors (last out) (last inn))
                   else Vector3 (Num 1) (Num 0) (Num 0)))])) \<and>
   (a * a + c * c = 1 \<longrightarrow>
      normalize_v3
        (subVectors (snd (offsetPair (Vector3 (Num x) (Num y) (Num z))
                            (Vector3 (Num a) (Num 0) (Num c))))
           (fst (offsetPair (Vector3 (Num x) (Num y) (Num z))
                   (Vector3 (Num a) (Num 0) (Num c)))))
      = Vector3 (Num a) (Num 0) (Num c))"
  using trackBoundaries_finite [of trackPath] Track_vertices_finite [of trackPath]
    boundaryStep_degenerate [of points i inn out] offsetPair_normal [of a c x y z]
  by blast

theorem C6_no_non_finite_vertex_witness:
  "innerPoints (trackBoundaries duplicatePath) =
     [Vector3 (Num (- 0.04)) (Num 0) (Num 0), Vector3 (Num (- 0.04)) (Num 0) (Num 0),
      Vector3 (Num 1) (Num 0) (Num (- 0.04))] \<and>
   outerPoints (trackBoundaries duplicatePath) =
     [Vector3 (Num 0.04) (Num 0) (Num 0), Vector3 (Num 0.04) (Num 0) (Num 0),
      Vector3 (Num 1) (Num 0) (Num 0.04)] \<and>
   list_all finitePoint (innerPoints (trackBoundaries duplicatePath)) \<and>
   list_all finitePoint (outerPoints (trackBoundaries duplicatePath)) \<and>
   boundaryStep (toPoints duplicatePath) 0 ([], []) =
     ([Vector3 (Num (- 0.04)) (Num 0) (Num 0)], [Vector3 (Num 0.04) (Num 0) (Num 0)]) \<and>
   boundaryStep (toPoints duplicatePath) 1
     ([Vector3 (Num (- 0.04)) (Num 0) (Num 0)], [Vector3 (Num 0.04) (Num 0) (Num 0)]) =
     ([Vector3 (Num (- 0.04)) (Num 0) (Num 0), Vector3 (Num (- 0.04)) (Num 0) (Num 0)],
      [Vector3 (Num 0.04) (Num 0) (Num 0), Vector3 (Num 0.04) (Num 0) (Num 0)])"
proof -
  note c0 = C6_no_non_finite_vertex [where trackPath = duplicatePath
      and points = "toPoints duplicatePath" and i = 0 and inn = "[]" and out = "[]"
      and a = 1 and c = 0 and x = 0 and y = 0 and z = 0]
  note c1 = C6_no_non_finite_vertex [where trackPath = duplicatePath
      and points = "toPoints duplicatePath" and i = 1
      and inn = "[Vector3 (Num (- 0.04)) (Num 0) (Num 0)]"
      and out = "[Vector3 (Num 0.04) (Num 0) (Num 0)]"
      and a = 1 and c = 0 and x = 0 and y = 0 and z = 0]
  have n: "normalize_v3 (subVectors (Vector3 (Num 0.04) (Num 0) (Num 0))
             (Vector3 (Num (- 0.04)) (Num 0) (Num 0))) = Vector3 (Num 1) (Num 0) (Num 0)"
    using c0 by (simp add: offsetPair_Num)
  have s0: "boundaryStep (toPoints duplicatePath) 0 ([], []) =
     ([Vector3 (Num (- 0.04)) (Num 0) (Num 0)], [Vector3 (Num 0.04) (Num 0) (Num 0)])"
    using c0 by (simp add: toPoints_duplicatePath subVectors_def offsetPair_Num)
  have s1: "boundaryStep (toPoints duplicatePath) 1
     ([Vector3 (Num (- 0.04)) (Num 0) (Num 0)], [Vector3 (Num 0.04) (Num 0) (Num 0)]) =
     ([Vector3 (Num (- 0.04)) (Num 0) (Num 0), Vector3 (Num (- 0.04)) (Num 0) (Num 0)],
      [Vector3 (Num 0.04) (Num 0) (Num 0), Vector3 (Num 0.04) (Num 0) (Num 0)])"
    using c1 n by (simp add: toPoints_duplicatePath subVectors_def offsetPair_Num)
  from c0 have "list_all finitePoint (innerPoints (trackBoundaries duplicatePath))"
    "list_all finitePoint (outerPoints (trackBoundaries duplicatePath))"
    by (simp_all add: list_all_iff)
  with s0 s1 show ?thesis by (simp add: trackBoundaries_duplicatePath)
qed

text \<open>Straight paths: the loop body in closed form.\<close>

lemma sub_straightPoint:
  "subVectors (straightPoint bx bz ux uz s) (straightPoint bx bz ux uz s') = along ux uz (s - s')"
  by (simp add: subVectors_def straightPoint_def along_def algebra_simps)

lemma sqrt_scaled:
  assumes "ux * ux + uz * uz = 1"
  shows "sqrt ((d * ux) * (d * ux) + 0 * 0 + (d * uz) * (d * uz)) = \<bar>d\<bar>"
proof -
  have "(d * ux) * (d * ux) + 0 * 0 + (d * uz) * (d * uz) = (d * d) * (ux * ux + uz * uz)"
    by (simp add: algebra_simps)
  also have "\<dots> = d * d" by (simp only: assms mult_1_right)
  finally show ?thesis by simp
qed

lemma sqrt_scaled':
  assumes "ux * ux + uz * uz = 1"
  shows "sqrt ((- (d * uz)) * (- (d * uz)) + 0 * 0 + (d * ux) * (d * ux)) = \<bar>d\<bar>"
proof -
  have "(- (d * uz)) * (- (d * uz)) + 0 * 0 + (d * ux) * (d * ux) = (d * d) * (ux * ux + uz * uz)"
    by (simp add: algebra_simps)
  also have "\<dots> = d * d" by (simp only: assms mult_1_right)
  finally show ?thesis by simp
qed

lemma length_along:
  "ux * ux + uz * uz = 1 \<Longrightarrow> length_v3 (along ux uz d) = Num \<bar>d\<bar>"
  unfolding along_def length_v3_Num by (simp only: sqrt_scaled)

lemma length_across:
  "ux * ux + uz * uz = 1 \<Longrightarrow> length_v3 (across ux uz d) = Num \<bar>d\<bar>"
  unfolding across_def length_v3_Num by (simp only: sqrt_scaled')

lemma normalize_along:
  assumes "ux * ux + uz * uz = 1" and "d \<noteq> 0"
  shows "normalize_v3 (along ux uz d) = along ux uz (sgn d)"
proof -
  have "d * ux * (1 / \<bar>d\<bar>) = sgn d * ux" "d * uz * (1 / \<bar>d\<bar>) = sgn d * uz"
    using assms(2) by (simp_all add: sgn_real_def)
  then show ?thesis
    unfolding along_def normalize_Num Let_def
    using assms(2) by (simp only: sqrt_scaled [OF assms(1)]) simp
qed

lemma normalize_across:
  assumes "ux * ux + uz * uz = 1" and "d \<noteq> 0"
  shows "normalize_v3 (across ux uz d) = across ux uz (sgn d)"
proof -
  have "- (d * uz) * (1 / \<bar>d\<bar>) = - (sgn d * uz)" "d * ux * (1 / \<bar>d\<bar>) = sgn d * ux"
    using assms(2) by (simp_all add: sgn_real_def)
  then show ?thesis
    unfolding across_def normalize_Num Let_def
    using assms(2) by (simp only: sqrt_scaled' [OF assms(1)]) simp
qed

lemma add_along: "addVectors (along ux uz a) (along ux uz b) = along ux uz (a + b)"
  by (simp add: addVectors_def along_def algebra_simps)

lemma perp_along:
  "Vector3 (jneg (vz (along ux uz d))) (Num 0) (vx (along ux uz d)) = across ux uz d"
  by (simp add: along_def across_def)


lemma offsetPair_straight:
  "offsetPair (straightPoint bx bz ux uz s) (across ux uz e) =
     (Vector3 (Num (bx + s * ux + 0.04 * (e * uz))) (Num 0) (Num (bz + s * uz - 0.04 * (e * ux))),
      Vector3 (Num (bx + s * ux - 0.04 * (e * uz))) (Num 0) (Num (bz + s * uz + 0.04 * (e * ux))))"
  by (simp add: straightPoint_def across_def offsetPair_Num)

lemma straight_step:
  assumes u: "ux * ux + uz * uz = 1"
    and c: "points ! i = straightPoint bx bz ux uz s"
    and p: "points ! (if 0 < i then i - 1 else length points - 1) = straightPoint bx bz ux uz sp"
    and n: "points ! (if i < length points - 1 then i + 1 else 0) = straightPoint bx bz ux uz sn"
    and d1: "0.0001 \<le> \<bar>s - sp\<bar>" and d2: "0.0001 \<le> \<bar>sn - s\<bar>"
  shows "boundaryStep points i (inn, out) =
         (inn @ [fst (offsetPair (straightPoint bx bz ux uz s) (across ux uz (sgn (s - sp))))],
          out @ [snd (offsetPair (straightPoint bx bz ux uz s) (across ux uz (sgn (s - sp))))])"
proof -
  define a where "a = s - sp"
  define b where "b = sn - s"
  have a0: "a \<noteq> 0" and b0: "b \<noteq> 0" using d1 d2 by (auto simp: a_def b_def)
  have l1: "\<not> jlt (length_v3 (along ux uz a)) (Num 0.0001)"
    using d1 by (simp add: length_along [OF u] a_def)
  have l2: "\<not> jlt (length_v3 (along ux uz b)) (Num 0.0001)"
    using d2 by (simp add: length_along [OF u] b_def)
  have sa: "sgn a \<noteq> 0" "\<bar>sgn a\<bar> = 1" "sgn (sgn a) = sgn a"
    using a0 by (simp_all add: sgn_real_def)
  have nacr: "normalize_v3 (across ux uz (sgn a)) = across ux uz (sgn a)"
    using normalize_across [OF u sa(1)] sa(3) by simp
  have lacr: "\<not> jlt (length_v3 (across ux uz (sgn a))) (Num 0.0001)"
    using sa(2) by (simp add: length_across [OF u])
  have nn: "\<not> isNaN (vx (fst (offsetPair (straightPoint bx bz ux uz s) (across ux uz (sgn a)))))"
    "\<not> isNaN (vy (fst (offsetPair (straightPoint bx bz ux uz s) (across ux uz (sgn a)))))"
    "\<not> isNaN (vz (fst (offsetPair (straightPoint bx bz ux uz s) (across ux uz (sgn a)))))"
    "\<not> isNaN (vx (snd (offsetPair (straightPoint bx bz ux uz s) (across ux uz (sgn a)))))"
    "\<not> isNaN (vy (snd (offsetPair (straightPoint bx bz ux uz s) (across ux uz (sgn a)))))"
    "\<not> isNaN (vz (snd (offsetPair (straightPoint bx bz ux uz s) (across ux uz (sgn a)))))"
    by (simp_all add: offsetPair_straight)
  have "sgn a + sgn b = 0 \<or> sgn a + sgn b = 2 * sgn a"
    using a0 b0 by (cases "0 < a"; cases "0 < b") (simp_all add: sgn_real_def)
  then consider (opposite) "sgn a + sgn b = 0" | (same) "sgn a + sgn b = 2 * sgn a"
    by blast
  then have "boundaryStep points i (inn, out) =
         (inn @ [fst (offsetPair (straightPoint bx bz ux uz s) (across ux uz (sgn a)))],
          out @ [snd (offsetPair (straightPoint bx bz ux uz s) (across ux uz (sgn a)))])"
  proof cases
    case opposite
    have la: "jlt (length_v3 (along ux uz (sgn a + sgn b))) (Num 0.0001)"
      by (simp add: opposite length_along [OF u])
    show ?thesis
      unfolding boundaryStep_def c p n sub_straightPoint Let_def split_beta
        a_def [symmetric] b_def [symmetric]
      using l1 l2 la lacr
      by (simp add: normalize_along [OF u a0] normalize_along [OF u b0] add_along perp_along nacr)
  next
    case same
    have la: "\<not> jlt (length_v3 (along ux uz (sgn a + sgn b))) (Num 0.0001)"
      using sa(2) by (simp add: same length_along [OF u] abs_mult)
    have ne: "sgn a + sgn b \<noteq> 0" using same sa(1) by simp
    have ss: "sgn (sgn a + sgn b) = sgn a" using same sa by (simp add: sgn_mult)
    show ?thesis
      unfolding boundaryStep_def c p n sub_straightPoint Let_def split_beta
        a_def [symmetric] b_def [symmetric]
      using l1 l2 la lacr nn
      by (simp add: normalize_along [OF u a0] normalize_along [OF u b0] add_along perp_along nacr
          normalize_along [OF u ne] ss)
  qed
  then show ?thesis by (simp add: a_def)
qed


lemma straight_fold:
  assumes u: "ux * ux + uz * uz = 1"
    and pts: "points = map (straightPoint bx bz ux uz) ss"
    and gaps: "\<forall>j < length ss.
        0.0001 \<le> \<bar>ss ! j - ss ! (if 0 < j then j - 1 else length ss - 1)\<bar> \<and>
        0.0001 \<le> \<bar>ss ! (if j < length ss - 1 then j + 1 else 0) - ss ! j\<bar>"
  shows "\<forall>j \<in> set js. j < length ss \<Longrightarrow>
         fold (boundaryStep points) js (inn, out) =
           (inn @ map (\<lambda>j. fst (offsetPair (straightPoint bx bz ux uz (ss ! j))
                    (across ux uz
                       (sgn (ss ! j - ss ! (if 0 < j then j - 1 else length ss - 1)))))) js,
            out @ map (\<lambda>j. snd (offsetPair (straightPoint bx bz ux uz (ss ! j))
                    (across ux uz
                       (sgn (ss ! j - ss ! (if 0 < j then j - 1 else length ss - 1)))))) js)"
proof (induction js arbitrary: inn out)
  case Nil
  show ?case by simp
next
  case (Cons j js)
  then have j: "j < length ss" and js: "\<forall>j \<in> set js. j < length ss" by simp_all
  have len: "length points = length ss" using pts by simp
  have pj: "(if 0 < j then j - 1 else length ss - 1) < length ss"
    and nj: "(if j < length ss - 1 then j + 1 else 0) < length ss"
    using j by auto
  have c: "points ! j = straightPoint bx bz ux uz (ss ! j)"
    using j pts by simp
  have p: "points ! (if 0 < j then j - 1 else length points - 1)
             = straightPoint bx bz ux uz (ss ! (if 0 < j then j - 1 else length ss - 1))"
    unfolding len using pj pts by simp
  have n: "points ! (if j < length points - 1 then j + 1 else 0)
             = straightPoint bx bz ux uz (ss ! (if j < length ss - 1 then j + 1 else 0))"
    unfolding len using nj pts by simp
  from gaps j have g:
    "0.0001 \<le> \<bar>ss ! j - ss ! (if 0 < j then j - 1 else length ss - 1)\<bar>"
    "0.0001 \<le> \<bar>ss ! (if j < length ss - 1 then j + 1 else 0) - ss ! j\<bar>"
    by blast+
  show ?case
    unfolding fold_Cons comp_def straight_step [OF u c p n g] Cons.IH [OF js]
    by simp
qed

lemma straight_gaps:
  fixes ss :: "real list"
  assumes "sorted_wrt (\<lambda>a b. a + 0.0001 \<le> b) ss" and "2 \<le> length ss" and "j < length ss"
  shows "0.0001 \<le> \<bar>ss ! j - ss ! (if 0 < j then j - 1 else length ss - 1)\<bar> \<and>
         0.0001 \<le> \<bar>ss ! (if j < length ss - 1 then j + 1 else 0) - ss ! j\<bar> \<and>
         sgn (ss ! j - ss ! (if 0 < j then j - 1 else length ss - 1))
           = (if j = 0 then - 1 else 1)"
proof -
  have inc: "ss ! a + 0.0001 \<le> ss ! b" if "a < b" "b < length ss" for a b
    using assms(1) that by (rule sorted_wrt_nth_less)
  have first_last: "ss ! 0 + 0.0001 \<le> ss ! (length ss - 1)"
    using assms(2) by (intro inc) auto
  show ?thesis
  proof (cases "j = 0")
    case True
    have "ss ! 0 + 0.0001 \<le> ss ! 1" using assms(2) by (intro inc) auto
    with True first_last assms(2) show ?thesis by (simp add: sgn_real_def)
  next
    case False
    then have p: "ss ! (j - 1) + 0.0001 \<le> ss ! j" using assms(3) by (intro inc) auto
    show ?thesis
    proof (cases "j < length ss - 1")
      case True
      then have "ss ! j + 0.0001 \<le> ss ! (j + 1)" by (intro inc) auto
      with p False True show ?thesis by (simp add: sgn_real_def)
    next
      case last: False
      with assms(3) have "j = length ss - 1" by simp
      with p False last first_last show ?thesis by (simp add: sgn_real_def)
    qed
  qed
qed

lemma toPoints_straight:
  assumes "length ss = length ys"
  shows "toPoints (map2 (\<lambda>s y. [Num (bx + s * ux), y, Num (bz + s * uz)]) ss ys)
           = map (straightPoint bx bz ux uz) ss"
  using assms
  by (induction ss ys rule: list_induct2) (simp_all add: toPoints_def validPoint_def straightPoint_def)

lemma sqrt_1_625: "sqrt (1 / 625) = 1 / 25"
  by (rule real_sqrt_unique) (simp_all add: power2_eq_square)

lemma distance_offset:
  assumes "nx * nx + nz * nz = 1"
  shows "distanceTo (Vector3 (Num (cx + 0.04 * nx)) (Num 0) (Num (cz + 0.04 * nz)))
           (Vector3 (Num cx) (Num 0) (Num cz)) = Num 0.04"
proof -
  have "(cx + 0.04 * nx - cx) * (cx + 0.04 * nx - cx) + 0 +
        (cz + 0.04 * nz - cz) * (cz + 0.04 * nz - cz) = 1 / 625 * (nx * nx + nz * nz)"
    by (simp add: algebra_simps)
  also have "\<dots> = 1 / 625" by (simp only: assms mult_1_right)
  finally have "sqrt ((cx + 0.04 * nx - cx) * (cx + 0.04 * nx - cx) + 0 +
        (cz + 0.04 * nz - cz) * (cz + 0.04 * nz - cz)) = 1 / 25"
    by (simp only: sqrt_1_625)
  then show ?thesis
    by (simp add: distanceTo_def Let_def not_less)
qed

lemma straight_boundaries:
  assumes u: "ux * ux + uz * uz = 1"
    and path: "trackPath = map2 (\<lambda>s y. [Num (bx + s * ux), y, Num (bz + s * uz)]) ss ys"
    and len: "length ss = length ys" and n2: "2 \<le> length ss"
    and mono: "sorted_wrt (\<lambda>a b. a + 0.0001 \<le> b) ss"
  shows "trackBoundaries trackPath =
           \<lparr>centerPoints = map (straightPoint bx bz ux uz) ss,
            innerPoints = map (\<lambda>j. fst (offsetPair (straightPoint bx bz ux uz (ss ! j))
                                  (across ux uz (if j = 0 then - 1 else 1)))) [0..<length ss],
            outerPoints = map (\<lambda>j. snd (offsetPair (straightPoint bx bz ux uz (ss ! j))
                                  (across ux uz (if j = 0 then - 1 else 1)))) [0..<length ss]\<rparr>"
proof -
  let ?points = "map (straightPoint bx bz ux uz) ss"
  have tp: "toPoints trackPath = ?points"
    unfolding path by (rule toPoints_straight [OF len])
  have lp: "length trackPath = length ss" using path len by simp
  have gaps: "\<forall>j < length ss.
        0.0001 \<le> \<bar>ss ! j - ss ! (if 0 < j then j - 1 else length ss - 1)\<bar> \<and>
        0.0001 \<le> \<bar>ss ! (if j < length ss - 1 then j + 1 else 0) - ss ! j\<bar>"
    using straight_gaps [OF mono n2] by blast
  have "boundaryLoop ?points =
          (map (\<lambda>j. fst (offsetPair (straightPoint bx bz ux uz (ss ! j))
                    (across ux uz
                       (sgn (ss ! j - ss ! (if 0 < j then j - 1 else length ss - 1))))))
             [0..<length ss],
           map (\<lambda>j. snd (offsetPair (straightPoint bx bz ux uz (ss ! j))
                    (across ux uz
                       (sgn (ss ! j - ss ! (if 0 < j then j - 1 else length ss - 1))))))
             [0..<length ss])"
    unfolding boundaryLoop_def
    using straight_fold [OF u refl gaps, of "[0..<length ss]" bx bz "[]" "[]"] by simp
  also have "\<dots> =
          (map (\<lambda>j. fst (offsetPair (straightPoint bx bz ux uz (ss ! j))
                    (across ux uz (if j = 0 then - 1 else 1)))) [0..<length ss],
           map (\<lambda>j. snd (offsetPair (straightPoint bx bz ux uz (ss ! j))
                    (across ux uz (if j = 0 then - 1 else 1)))) [0..<length ss])"
    using straight_gaps [OF mono n2] by simp
  finally show ?thesis
    unfolding trackBoundaries_def tp Let_def using lp n2 by simp
qed

lemma straightPath_map2:
  "straightPath = map2 (\<lambda>s y. [Num (0 + s * 1), y, Num (0 + s * 0)]) [0, 1, 2] [Num 0, Num 0, Num 0]"
  by (simp add: straightPath_def)

lemma trackBoundaries_straightPath:
  "trackBoundaries straightPath =
     \<lparr>centerPoints =
        [Vector3 (Num 0) (Num 0) (Num 0), Vector3 (Num 1) (Num 0) (Num 0),
         Vector3 (Num 2) (Num 0) (Num 0)],
      innerPoints =
        [Vector3 (Num 0) (Num 0) (Num 0.04), Vector3 (Num 1) (Num 0) (Num (- 0.04)),
         Vector3 (Num 2) (Num 0) (Num (- 0.04))],
      outerPoints =
        [Vector3 (Num 0) (Num 0) (Num (- 0.04)), Vector3 (Num 1) (Num 0) (Num 0.04),
         Vector3 (Num 2) (Num 0) (Num 0.04)]\<rparr>"
proof -
  have l: "length straightPath = 3" by (simp add: straightPath_def)
  have "boundaryLoop (toPoints straightPath) =
     ([Vector3 (Num 0) (Num 0) (Num 0.04), Vector3 (Num 1) (Num 0) (Num (- 0.04)),
       Vector3 (Num 2) (Num 0) (Num (- 0.04))],
      [Vector3 (Num 0) (Num 0) (Num (- 0.04)), Vector3 (Num 1) (Num 0) (Num 0.04),
       Vector3 (Num 2) (Num 0) (Num 0.04)])"
    by (simp add: toPoints_straightPath boundaryLoop_def vec_simps)
  then show ?thesis
    unfolding trackBoundaries_def Let_def using l by (simp add: toPoints_straightPath)
qed

lemma Track_straightPath:
  "Track straightPath =
     Inr (Some \<lparr>asphalt = Some
        \<lparr>vertices =
           [Num 0, Num 0, Num 0.04, Num 0, Num 0, Num (- 0.04),
            Num 1, Num 0, Num (- 0.04), Num 1, Num 0, Num 0.04,
            Num 2, Num 0, Num (- 0.04), Num 2, Num 0, Num 0.04],
         indices = [0, 1, 2, 1, 3, 2, 2, 3, 4, 3, 5, 4]\<rparr>,
       outerLine =
         [Vector3 (Num 0) (Num 0) (Num (- 0.04)), Vector3 (Num 1) (Num 0) (Num 0.04),
          Vector3 (Num 2) (Num 0) (Num 0.04)],
       innerLine =
         [Vector3 (Num 0) (Num 0) (Num 0.04), Vector3 (Num 1) (Num 0) (Num (- 0.04)),
          Vector3 (Num 2) (Num 0) (Num (- 0.04))]\<rparr>)"
proof -
  have "1 \<le> sqrt (2504 / 625)" by (rule real_le_rsqrt) simp
  then have far: "\<not> sqrt (2504 / 625) * 10 < 1" by linarith
  show ?thesis
    unfolding Track_def trackBoundaries_straightPath Let_def
    using far
    by (simp add: finitePoint_def asphaltGeometry_def arrayAt_def quadIndices_def
        closingIndices_def distanceTo_def Let_def)
qed

text \<open>
  C5. For a straight path of at least two points whose consecutive points are at least
  0.0001 apart, every inner and outer point is the centre point moved by exactly half the
  track width (0.04, the width being the constant 0.08) along a unit vector perpendicular
  to the direction of the line: the inner point against that vector, the outer point
  along it. The vector is the direction turned by a quarter turn in the ground plane; at
  index 0, whose previous neighbour is the last point of the path, it is the opposite one.
\<close>

theorem C5_straight_path_offsets:
  assumes u: "ux * ux + uz * uz = 1"
    and path: "trackPath = map2 (\<lambda>s y. [Num (bx + s * ux), y, Num (bz + s * uz)]) ss ys"
    and len: "length ss = length ys" and n2: "2 \<le> length ss"
    and mono: "sorted_wrt (\<lambda>a b. a + 0.0001 \<le> b) ss"
    and i: "i < length ss"
  shows "let e = (if i = 0 then - 1 else 1);
             nx = - (e * uz); nz = e * ux;
             cx = bx + ss ! i * ux; cz = bz + ss ! i * uz;
             b = trackBoundaries trackPath
         in centerPoints b ! i = Vector3 (Num cx) (Num 0) (Num cz) \<and>
            innerPoints b ! i = Vector3 (Num (cx - 0.04 * nx)) (Num 0) (Num (cz - 0.04 * nz)) \<and>
            outerPoints b ! i = Vector3 (Num (cx + 0.04 * nx)) (Num 0) (Num (cz + 0.04 * nz)) \<and>
            nx * ux + nz * uz = 0 \<and> nx * nx + nz * nz = 1 \<and>
            distanceTo (innerPoints b ! i) (centerPoints b ! i) = jdiv trackWidth (Num 2) \<and>
            distanceTo (outerPoints b ! i) (centerPoints b ! i) = jdiv trackWidth (Num 2) \<and>
            jdiv trackWidth (Num 2) = Num 0.04"
proof -
  define e :: real where "e = (if i = 0 then - 1 else 1)"
  define nx where "nx = - (e * uz)"
  define nz where "nz = e * ux"
  define cx where "cx = bx + ss ! i * ux"
  define cz where "cz = bz + ss ! i * uz"
  have ee: "e * e = 1" by (simp add: e_def)
  have perp: "nx * ux + nz * uz = 0" by (simp add: nx_def nz_def)
  have "nx * nx + nz * nz = (e * e) * (ux * ux + uz * uz)"
    by (simp add: nx_def nz_def algebra_simps)
  then have unit: "nx * nx + nz * nz = 1" by (simp only: ee u mult_1_right)
  then have unit': "(- nx) * (- nx) + (- nz) * (- nz) = 1" by simp
  note b = straight_boundaries [OF u path len n2 mono]
  have c: "centerPoints (trackBoundaries trackPath) ! i = Vector3 (Num cx) (Num 0) (Num cz)"
    using i by (simp add: b straightPoint_def cx_def cz_def)
  have inn: "innerPoints (trackBoundaries trackPath) ! i
               = Vector3 (Num (cx - 0.04 * nx)) (Num 0) (Num (cz - 0.04 * nz))"
    using i by (simp add: b offsetPair_straight cx_def cz_def nx_def nz_def e_def)
  have out: "outerPoints (trackBoundaries trackPath) ! i
               = Vector3 (Num (cx + 0.04 * nx)) (Num 0) (Num (cz + 0.04 * nz))"
    using i by (simp add: b offsetPair_straight cx_def cz_def nx_def nz_def e_def)
  have h: "jdiv trackWidth (Num 2) = Num 0.04" by (simp add: trackWidth_def)
  have di: "distanceTo (innerPoints (trackBoundaries trackPath) ! i)
              (centerPoints (trackBoundaries trackPath) ! i) = Num 0.04"
    unfolding inn c using distance_offset [OF unit', of cx cz] by simp
  have do: "distanceTo (outerPoints (trackBoundaries trackPath) ! i)
              (centerPoints (trackBoundaries trackPath) ! i) = Num 0.04"
    unfolding out c by (rule distance_offset [OF unit])
  show ?thesis
    unfolding Let_def e_def [symmetric] nx_def [symmetric] nz_def [symmetric]
      cx_def [symmetric] cz_def [symmetric]
    using c inn out perp unit di do h by simp
qed

theorem C5_straight_path_offsets_witness:
  "sorted_wrt (\<lambda>a b. a + 0.0001 \<le> b) [0, 1, 2 :: real] \<and>
   innerPoints (trackBoundaries straightPath) ! 0 = Vector3 (Num 0) (Num 0) (Num 0.04) \<and>
   outerPoints (trackBoundaries straightPath) ! 0 = Vector3 (Num 0) (Num 0) (Num (- 0.04)) \<and>
   innerPoints (trackBoundaries straightPath) ! 1 = Vector3 (Num 1) (Num 0) (Num (- 0.04)) \<and>
   outerPoints (trackBoundaries straightPath) ! 1 = Vector3 (Num 1) (Num 0) (Num 0.04) \<and>
   innerPoints (trackBoundaries straightPath) ! 2 = Vector3 (Num 2) (Num 0) (Num (- 0.04)) \<and>
   outerPoints (trackBoundaries straightPath) ! 2 = Vector3 (Num 2) (Num 0) (Num 0.04) \<and>
   distanceTo (innerPoints (trackBoundaries straightPath) ! 0)
     (centerPoints (trackBoundaries straightPath) ! 0) = Num 0.04 \<and>
   distanceTo (outerPoints (trackBoundaries straightPath) ! 2)
     (centerPoints (trackBoundaries straightPath) ! 2) = Num 0.04 \<and>
   Track straightPath =
     Inr (Some \<lparr>asphalt = Some
        \<lparr>vertices =
           [Num 0, Num 0, Num 0.04, Num 0, Num 0, Num (- 0.04),
            Num 1, Num 0, Num (- 0.04), Num 1, Num 0, Num 0.04,
            Num 2, Num 0, Num (- 0.04), Num 2, Num 0, Num 0.04],
         indices = [0, 1, 2, 1, 3, 2, 2, 3, 4, 3, 5, 4]\<rparr>,
       outerLine =
         [Vector3 (Num 0) (Num 0) (Num (- 0.04)), Vector3 (Num 1) (Num 0) (Num 0.04),
          Vector3 (Num 2) (Num 0) (Num 0.04)],
       innerLine =
         [Vector3 (Num 0) (Num 0) (Num 0.04), Vector3 (Num 1) (Num 0) (Num (- 0.04)),
          Vector3 (Num 2) (Num 0) (Num (- 0.04))]\<rparr>)"
proof -
  have m: "sorted_wrt (\<lambda>a b. a + 0.0001 \<le> b) [0, 1, 2 :: real]" by simp
  note c = C5_straight_path_offsets [where ux = 1 and uz = 0 and bx = 0 and bz = 0
      and ss = "[0, 1, 2]" and ys = "[Num 0, Num 0, Num 0]" and trackPath = straightPath,
      OF _ straightPath_map2 _ _ m]
  have c0: "innerPoints (trackBoundaries straightPath) ! 0 = Vector3 (Num 0) (Num 0) (Num 0.04)"
    "outerPoints (trackBoundaries straightPath) ! 0 = Vector3 (Num 0) (Num 0) (Num (- 0.04))"
    "distanceTo (innerPoints (trackBoundaries straightPath) ! 0)
       (centerPoints (trackBoundaries straightPath) ! 0) = Num 0.04"
    using c [of 0] by (auto simp: Let_def)
  have c1: "innerPoints (trackBoundaries straightPath) ! 1 = Vector3 (Num 1) (Num 0) (Num (- 0.04))"
    "outerPoints (trackBoundaries straightPath) ! 1 = Vector3 (Num 1) (Num 0) (Num 0.04)"
    using c [of 1] by (auto simp: Let_def)
  have c2: "innerPoints (trackBoundaries straightPath) ! 2 = Vector3 (Num 2) (Num 0) (Num (- 0.04))"
    "outerPoints (trackBoundaries straightPath) ! 2 = Vector3 (Num 2) (Num 0) (Num 0.04)"
    "distanceTo (outerPoints (trackBoundaries straightPath) ! 2)
       (centerPoints (trackBoundaries straightPath) ! 2) = Num 0.04"
    using c [of 2] by (auto simp: Let_def)
  show ?thesis
    using m c0 c1 c2 Track_straightPath by simp
qed

theorem C5_example_offsets_differ:
  "innerPoints (trackBoundaries straightPath) =
     [Vector3 (Num 0) (Num 0) (Num 0.04), Vector3 (Num 1) (Num 0) (Num (- 0.04)),
      Vector3 (Num 2) (Num 0) (Num (- 0.04))] \<and>
   outerPoints (trackBoundaries straightPath) =
     [Vector3 (Num 0) (Num 0) (Num (- 0.04)), Vector3 (Num 1) (Num 0) (Num 0.04),
      Vector3 (Num 2) (Num 0) (Num 0.04)] \<and>
   innerPoints (trackBoundaries straightPath) \<noteq>
     [Vector3 (Num 0) (Num 0) (Num 0.05), Vector3 (Num 1) (Num 0) (Num 0.05),
      Vector3 (Num 2) (Num 0) (Num 0.05)] \<and>
   outerPoints (trackBoundaries straightPath) \<noteq>
     [Vector3 (Num 0) (Num 0) (Num (- 0.05)), Vector3 (Num 1) (Num 0) (Num (- 0.05)),
      Vector3 (Num 2) (Num 0) (Num (- 0.05))] \<and>
   trackWidth = Num 0.08"
  by (simp add: trackBoundaries_straightPath trackWidth_def)

lemma length_quadIndices: "length (quadIndices n) = 6 * (n - 1)"
  by (simp add: quadIndices_def Let_def length_concat comp_def sum_list_triv)

lemma asphaltGeometry_indices:
  assumes "2 \<le> length vi" and "length vi \<le> length vo"
  shows "\<exists>verts. asphaltGeometry vi vo =
           Inr (Some \<lparr>vertices = verts,
                      indices = quadIndices (length vi) @
                        (if jlt (distanceTo (vi ! 0) (vi ! (length vi - 1))) (Num 0.1)
                         then [(length vi - 1) * 2, (length vi - 1) * 2 + 1, 0,
                               (length vi - 1) * 2 + 1, 1, 0]
                         else [])\<rparr>) \<and>
           length verts = 6 * length vi"
proof -
  from pushVertices_ok [of 0 vi vo "[]"] assms(2)
  obtain v where "pushVertices vi 0 vo [] = Inr v" "length v = 6 * length vi" by auto
  then show ?thesis
    using assms by (simp add: asphaltGeometry_def closingIndices_def Let_def)
qed

lemma shortPath_map2:
  "shortPath = map2 (\<lambda>s y. [Num (0 + s * 1), y, Num (0 + s * 0)]) [0, 0.09] [Num 0, Num 0]"
  by (simp add: shortPath_def)

lemma shorterPath_map2:
  "shorterPath = map2 (\<lambda>s y. [Num (0 + s * 1), y, Num (0 + s * 0)]) [0, 0.05] [Num 0, Num 0]"
  by (simp add: shorterPath_def)

lemma trackBoundaries_shortPath:
  "trackBoundaries shortPath =
     \<lparr>centerPoints = [Vector3 (Num 0) (Num 0) (Num 0), Vector3 (Num 0.09) (Num 0) (Num 0)],
      innerPoints = [Vector3 (Num 0) (Num 0) (Num 0.04), Vector3 (Num 0.09) (Num 0) (Num (- 0.04))],
      outerPoints = [Vector3 (Num 0) (Num 0) (Num (- 0.04)), Vector3 (Num 0.09) (Num 0) (Num 0.04)]\<rparr>"
  using straight_boundaries [where ux = 1 and uz = 0 and bx = 0 and bz = 0
      and ss = "[0, 0.09]" and ys = "[Num 0, Num 0]", OF _ shortPath_map2]
  by (simp add: offsetPair_Num across_def straightPoint_def)

lemma trackBoundaries_shorterPath:
  "trackBoundaries shorterPath =
     \<lparr>centerPoints = [Vector3 (Num 0) (Num 0) (Num 0), Vector3 (Num 0.05) (Num 0) (Num 0)],
      innerPoints = [Vector3 (Num 0) (Num 0) (Num 0.04), Vector3 (Num 0.05) (Num 0) (Num (- 0.04))],
      outerPoints = [Vector3 (Num 0) (Num 0) (Num (- 0.04)), Vector3 (Num 0.05) (Num 0) (Num 0.04)]\<rparr>"
  using straight_boundaries [where ux = 1 and uz = 0 and bx = 0 and bz = 0
      and ss = "[0, 0.05]" and ys = "[Num 0, Num 0]", OF _ shorterPath_map2]
  by (simp add: offsetPair_Num across_def straightPoint_def)

text \<open>
  C7. Whenever the component renders, the index buffer is the two triangles per
  consecutive pair of boundary points followed by exactly two closing triangles when the
  first and the last inner boundary points are less than 0.1 apart, and by nothing
  otherwise. The test is on the inner boundary, not on the centre line.
\<close>

theorem C7_closing_triangles:
  assumes "Track trackPath = Inr (Some view)"
  shows "\<exists>g. asphalt view = Some g \<and>
           indices g =
             quadIndices (length (innerPoints (trackBoundaries trackPath))) @
             (if jlt (distanceTo (innerPoints (trackBoundaries trackPath) ! 0)
                        (innerPoints (trackBoundaries trackPath)
                           ! (length (innerPoints (trackBoundaries trackPath)) - 1)))
                   (Num 0.1)
              then [(length (innerPoints (trackBoundaries trackPath)) - 1) * 2,
                    (length (innerPoints (trackBoundaries trackPath)) - 1) * 2 + 1, 0,
                    (length (innerPoints (trackBoundaries trackPath)) - 1) * 2 + 1, 1, 0]
              else []) \<and>
           length (quadIndices (length (innerPoints (trackBoundaries trackPath))))
             = 6 * (length (innerPoints (trackBoundaries trackPath)) - 1)"
proof -
  let ?inn = "innerPoints (trackBoundaries trackPath)"
  let ?out = "outerPoints (trackBoundaries trackPath)"
  from assms have c: "2 \<le> length (centerPoints (trackBoundaries trackPath))"
    and g: "asphaltGeometry ?inn ?out = Inr (asphalt view)"
    by (auto simp: Track_def Let_def Track_valid_points split: if_splits sum.splits)
  have l: "2 \<le> length ?inn" "length ?inn \<le> length ?out"
    using c trackBoundaries_length [of trackPath] by simp_all
  from asphaltGeometry_indices [OF l] g show ?thesis
    by (auto simp: length_quadIndices)
qed

lemma sqrt_81_10000: "sqrt (81 / 10000) = 9 / 100"
  by (rule real_sqrt_unique) (simp_all add: power2_eq_square)

lemma Track_shortPath:
  "Track shortPath =
     Inr (Some \<lparr>asphalt = Some
        \<lparr>vertices =
           [Num 0, Num 0, Num 0.04, Num 0, Num 0, Num (- 0.04),
            Num 0.09, Num 0, Num (- 0.04), Num 0.09, Num 0, Num 0.04],
         indices = [0, 1, 2, 1, 3, 2]\<rparr>,
       outerLine = [Vector3 (Num 0) (Num 0) (Num (- 0.04)), Vector3 (Num 0.09) (Num 0) (Num 0.04)],
       innerLine = [Vector3 (Num 0) (Num 0) (Num 0.04), Vector3 (Num 0.09) (Num 0) (Num (- 0.04))]\<rparr>)"
proof -
  have "1 / 10 \<le> sqrt (29 / 2000)" by (rule real_le_rsqrt) (simp add: power2_eq_square)
  then have far: "\<not> sqrt (29 / 2000) * 10 < 1" by linarith
  show ?thesis
    unfolding Track_def trackBoundaries_shortPath Let_def
    using far
    by (simp add: finitePoint_def asphaltGeometry_def arrayAt_def quadIndices_def
        closingIndices_def distanceTo_def Let_def)
qed

lemma Track_shorterPath:
  "Track shorterPath =
     Inr (Some \<lparr>asphalt = Some
        \<lparr>vertices =
           [Num 0, Num 0, Num 0.04, Num 0, Num 0, Num (- 0.04),
            Num 0.05, Num 0, Num (- 0.04), Num 0.05, Num 0, Num 0.04],
         indices = [0, 1, 2, 1, 3, 2, 2, 3, 0, 3, 1, 0]\<rparr>,
       outerLine = [Vector3 (Num 0) (Num 0) (Num (- 0.04)), Vector3 (Num 0.05) (Num 0) (Num 0.04)],
       innerLine = [Vector3 (Num 0) (Num 0) (Num 0.04), Vector3 (Num 0.05) (Num 0) (Num (- 0.04))]\<rparr>)"
proof -
  have "sqrt (89 / 10000) < 1 / 10" by (rule real_less_lsqrt) (simp_all add: power2_eq_square)
  then have near: "sqrt (89 / 10000) * 10 < 1" by linarith
  show ?thesis
    unfolding Track_def trackBoundaries_shorterPath Let_def
    using near
    by (simp add: finitePoint_def asphaltGeometry_def arrayAt_def quadIndices_def
        closingIndices_def distanceTo_def Let_def)
qed

theorem C7_closing_triangles_witness:
  "Track shorterPath =
     Inr (Some \<lparr>asphalt = Some
        \<lparr>vertices =
           [Num 0, Num 0, Num 0.04, Num 0, Num 0, Num (- 0.04),
            Num 0.05, Num 0, Num (- 0.04), Num 0.05, Num 0, Num 0.04],
         indices = [0, 1, 2, 1, 3, 2, 2, 3, 0, 3, 1, 0]\<rparr>,
       outerLine = [Vector3 (Num 0) (Num 0) (Num (- 0.04)), Vector3 (Num 0.05) (Num 0) (Num 0.04)],
       innerLine = [Vector3 (Num 0) (Num 0) (Num 0.04), Vector3 (Num 0.05) (Num 0) (Num (- 0.04))]\<rparr>) \<and>
   jlt (distanceTo (innerPoints (trackBoundaries shorterPath) ! 0)
          (innerPoints (trackBoundaries shorterPath) ! 1)) (Num 0.1) \<and>
   quadIndices 2 @ [2, 3, 0, 3, 1, 0] = [0, 1, 2, 1, 3, 2, 2, 3, 0, 3, 1, 0] \<and>
   Track shortPath =
     Inr (Some \<lparr>asphalt = Some
        \<lparr>vertices =
           [Num 0, Num 0, Num 0.04, Num 0, Num 0, Num (- 0.04),
            Num 0.09, Num 0, Num (- 0.04), Num 0.09, Num 0, Num 0.04],
         indices = [0, 1, 2, 1, 3, 2]\<rparr>,
       outerLine = [Vector3 (Num 0) (Num 0) (Num (- 0.04)), Vector3 (Num 0.09) (Num 0) (Num 0.04)],
       innerLine = [Vector3 (Num 0) (Num 0) (Num 0.04), Vector3 (Num 0.09) (Num 0) (Num (- 0.04))]\<rparr>) \<and>
   \<not> jlt (distanceTo (innerPoints (trackBoundaries shortPath) ! 0)
            (innerPoints (trackBoundaries shortPath) ! 1)) (Num 0.1)"
proof -
  note a = C7_closing_triangles [OF Track_shorterPath]
  note b = C7_closing_triangles [OF Track_shortPath]
  have qa: "quadIndices 2 @ [2, 3, 0, 3, 1, 0] = [0, 1, 2, 1, 3, 2, 2, 3, 0, 3, 1, 0]"
    by (simp add: quadIndices_def)
  have na: "jlt (distanceTo (innerPoints (trackBoundaries shorterPath) ! 0)
          (innerPoints (trackBoundaries shorterPath) ! 1)) (Num 0.1)"
    using a by (auto simp: trackBoundaries_shorterPath quadIndices_def split: if_splits)
  have nb: "\<not> jlt (distanceTo (innerPoints (trackBoundaries shortPath) ! 0)
            (innerPoints (trackBoundaries shortPath) ! 1)) (Num 0.1)"
    using b by (auto simp: trackBoundaries_shortPath quadIndices_def split: if_splits)
  show ?thesis
    using qa na nb Track_shorterPath Track_shortPath by simp
qed

theorem C7_centre_close_without_closing:
  "centerPoints (trackBoundaries shortPath)
     = [Vector3 (Num 0) (Num 0) (Num 0), Vector3 (Num 0.09) (Num 0) (Num 0)] \<and>
   distanceTo (Vector3 (Num 0) (Num 0) (Num 0)) (Vector3 (Num 0.09) (Num 0) (Num 0)) = Num 0.09 \<and>
   jlt (Num 0.09) (Num 0.1) \<and>
   Track shortPath =
     Inr (Some \<lparr>asphalt = Some
        \<lparr>vertices =
           [Num 0, Num 0, Num 0.04, Num 0, Num 0, Num (- 0.04),
            Num 0.09, Num 0, Num (- 0.04), Num 0.09, Num 0, Num 0.04],
         indices = [0, 1, 2, 1, 3, 2]\<rparr>,
       outerLine = [Vector3 (Num 0) (Num 0) (Num (- 0.04)), Vector3 (Num 0.09) (Num 0) (Num 0.04)],
       innerLine = [Vector3 (Num 0) (Num 0) (Num 0.04), Vector3 (Num 0.09) (Num 0) (Num (- 0.04))]\<rparr>)"
  using Track_shortPath
  by (simp add: trackBoundaries_shortPath distanceTo_def Let_def sqrt_81_10000)

end
